theory Spec2Isabelle
  imports Main "HOL-Library.Word"
begin

section \<open>Values of the Go program\<close>

text \<open>
  The package \<^verbatim>\<open>p11\<close> (file \<^verbatim>\<open>p11/p11.go\<close>) drives a PKCS#11 token through the
  interface \<^verbatim>\<open>TokenCtx\<close> and post-processes raw ECDSA signatures into the 65-byte
  recoverable form. Bytes are 8-bit words, Go strings are byte strings (Isabelle's
  \<open>string\<close>), \<^verbatim>\<open>big.Int\<close> values are \<open>int\<close>, handles are \<open>nat\<close>.
\<close>

type_synonym byte = "8 word"
type_synonym ObjectHandle = nat
type_synonym SessionHandle = nat

text \<open>
  Go's \<^verbatim>\<open>error\<close> values as the file builds them: a \<^verbatim>\<open>pkcs11.Error\<close> return code,
  \<^verbatim>\<open>errors.New\<close>, \<^verbatim>\<open>errors.Errorf\<close> with its format and single argument, and
  \<^verbatim>\<open>errors.WithMessage\<close>.
\<close>

datatype fmtarg = ArgInt int | ArgString string

datatype error =
    P11Error nat
  | ErrorsNew string
  | Errorf string fmtarg
  | WithMessage error string

definition CKR_ATTRIBUTE_TYPE_INVALID :: nat where
  "CKR_ATTRIBUTE_TYPE_INVALID = 18"

text \<open>
  How a call ends: it returns its Go results (a tuple that holds the \<^verbatim>\<open>error\<close> result
  as an \<open>error option\<close>, \<open>None\<close> for \<^verbatim>\<open>nil\<close>), or \<^verbatim>\<open>log.Fatalf\<close> ends the process, or
  the runtime panics (an index or slice bound out of range).
\<close>

datatype 'a outcome =
    Return 'a
  | Fatal string error
  | Panic

subsection \<open>Slices and big integers\<close>

text \<open>\<^verbatim>\<open>b[i]\<close> with Go's bounds check: \<open>None\<close> is the runtime panic.\<close>

definition index :: "'a list \<Rightarrow> nat \<Rightarrow> 'a option" where
  "index b i = (if i < length b then Some (b ! i) else None)"

text \<open>
  The builtin \<^verbatim>\<open>copy(dst, src)\<close>: the first \<open>min (len dst) (len src)\<close> elements of
  \<open>src\<close> overwrite the start of \<open>dst\<close>; the result is \<open>dst\<close> afterwards.
\<close>

definition copy :: "'a list \<Rightarrow> 'a list \<Rightarrow> 'a list" where
  "copy dst src = (let n = min (length dst) (length src) in take n src @ drop n dst)"

text \<open>\<^verbatim>\<open>new(big.Int).SetBytes(b)\<close>: \<open>b\<close> read as a big-endian unsigned integer.\<close>

definition SetBytes :: "byte list \<Rightarrow> int" where
  "SetBytes b = foldl (\<lambda>acc x. acc * 256 + uint x) 0 b"

text \<open>
  \<^verbatim>\<open>x.Bytes()\<close>: the big-endian bytes of the absolute value of \<open>x\<close>, with no leading
  zero byte (the empty slice for 0).
\<close>

fun natBytes :: "nat \<Rightarrow> byte list" where
  "natBytes n = (if n = 0 then [] else natBytes (n div 256) @ [of_nat (n mod 256)])"

definition Bytes :: "int \<Rightarrow> byte list" where
  "Bytes x = natBytes (nat \<bar>x\<bar>)"

text \<open>
  \<^verbatim>\<open>secp256k1N = crypto.S256().Params().N\<close>, the order of the curve secp256k1, and
  \<^verbatim>\<open>secp256k1HalfN = N / 2\<close>.
\<close>

definition secp256k1N :: int where
  "secp256k1N = 0xFFFFFFFFFFFFFFFFFFFFFFFFFFFFFFFEBAAEDCE6AF48A03BBFD25E8CD0364141"

definition secp256k1HalfN :: int where
  "secp256k1HalfN = secp256k1N div 2"

subsection \<open>fixLen\<close>

text \<open>
  The loop of \<^verbatim>\<open>fixLen\<close> advances \<open>i\<close> over the leading zero bytes; \<open>skipZeros b\<close> is
  \<^verbatim>\<open>b[i:]\<close> when it stops. Then \<^verbatim>\<open>out := make([]byte, 32); copy(out, b[i:])\<close>.
\<close>

fun skipZeros :: "byte list \<Rightarrow> byte list" where
  "skipZeros [] = []"
| "skipZeros (x # xs) = (if x \<noteq> 0 then x # xs else skipZeros xs)"

definition HashLength :: nat where
  "HashLength = 32"

definition fixLen :: "byte list \<Rightarrow> byte list" where
  "fixLen b = copy (replicate HashLength 0) (skipZeros b)"

subsection \<open>isValidSize\<close>

fun isValidSize :: "int list \<Rightarrow> int \<Rightarrow> bool" where
  "isValidSize [] n = False"
| "isValidSize (m # sizes) n = (if n = m then True else isValidSize sizes n)"

section \<open>The token interface\<close>

subsection \<open>Attributes and mechanisms\<close>

text \<open>
  The PKCS#11 constants the file names. Attribute and mechanism kinds are enumerations;
  object classes and key types are the \<^verbatim>\<open>uint\<close> values handed to \<^verbatim>\<open>NewAttribute\<close>.
\<close>

datatype attr_type =
    CKA_CLASS | CKA_TOKEN | CKA_PRIVATE | CKA_LABEL | CKA_VALUE | CKA_KEY_TYPE | CKA_ID
  | CKA_SENSITIVE | CKA_SIGN | CKA_VERIFY | CKA_WRAP | CKA_UNWRAP | CKA_EXTRACTABLE
  | CKA_EC_PARAMS | CKA_EC_POINT | CKA_MODULUS_BITS | CKA_PUBLIC_EXPONENT | CKA_VALUE_LEN

datatype mech_type =
    CKM_ECDSA | CKM_EC_KEY_PAIR_GEN | CKM_RSA_PKCS_KEY_PAIR_GEN | CKM_AES_KEY_GEN | CKM_AES_CBC

definition CKO_PUBLIC_KEY :: nat where "CKO_PUBLIC_KEY = 2"
definition CKO_PRIVATE_KEY :: nat where "CKO_PRIVATE_KEY = 3"
definition CKO_SECRET_KEY :: nat where "CKO_SECRET_KEY = 4"
definition CKK_RSA :: nat where "CKK_RSA = 0"
definition CKK_EC :: nat where "CKK_EC = 3"
definition CKK_AES :: nat where "CKK_AES = 31"

record Attribute =
  Type :: attr_type
  Value :: "byte list"

record Mechanism =
  Mechanism :: mech_type
  Parameter :: "byte list"

text \<open>
  The Go values that the file passes as the \<^verbatim>\<open>interface{}\<close> argument of
  \<^verbatim>\<open>pkcs11.NewAttribute\<close> and \<^verbatim>\<open>pkcs11.NewMechanism\<close>, and the bytes the binding stores
  for them: nothing for \<^verbatim>\<open>nil\<close>, one byte for a bool, the bytes of a string or slice,
  and a \<^verbatim>\<open>CK_ULONG\<close> for an integer (eight bytes, least significant first, on the
  64-bit targets).
\<close>

datatype govalue =
    GoNil | GoBool bool | GoInt int | GoUint nat | GoString string | GoBytes "byte list"

definition byte_of_char :: "char \<Rightarrow> byte" where
  "byte_of_char c = of_nat (of_char c)"

definition char_of_byte :: "byte \<Rightarrow> char" where
  "char_of_byte b = char_of (unat b)"

definition bytes_of_string :: "string \<Rightarrow> byte list" where
  "bytes_of_string str = map byte_of_char str"

definition string_of_bytes :: "byte list \<Rightarrow> string" where
  "string_of_bytes b = map char_of_byte b"

definition uintToBytes :: "nat \<Rightarrow> byte list" where
  "uintToBytes n =
     [of_nat n, of_nat (n div 2 ^ 8), of_nat (n div 2 ^ 16), of_nat (n div 2 ^ 24),
      of_nat (n div 2 ^ 32), of_nat (n div 2 ^ 40), of_nat (n div 2 ^ 48), of_nat (n div 2 ^ 56)]"

fun valueBytes :: "govalue \<Rightarrow> byte list" where
  "valueBytes GoNil = []"
| "valueBytes (GoBool v) = (if v then [1] else [0])"
| "valueBytes (GoInt v) = uintToBytes (nat (v mod 2 ^ 64))"
| "valueBytes (GoUint v) = uintToBytes v"
| "valueBytes (GoString v) = bytes_of_string v"
| "valueBytes (GoBytes v) = v"

definition NewAttribute :: "attr_type \<Rightarrow> govalue \<Rightarrow> Attribute" where
  "NewAttribute typ x = \<lparr>Type = typ, Value = valueBytes x\<rparr>"

definition NewMechanism :: "mech_type \<Rightarrow> govalue \<Rightarrow> Mechanism" where
  "NewMechanism mech x = \<lparr>Mechanism = mech, Parameter = valueBytes x\<rparr>"

subsection \<open>TokenCtx and the elliptic-curve library\<close>

text \<open>
  \<^verbatim>\<open>TokenCtx\<close> is a Go interface: the program works with any implementation of it. An
  implementation is a record of the operations over its own state \<open>'s\<close>; every operation
  takes the state last and returns its Go results (the \<^verbatim>\<open>error\<close> result as an option)
  with the new state. Only the operations used by the functions below are listed.
\<close>

record 's TokenCtx =
  ctx_DestroyObject :: "SessionHandle \<Rightarrow> ObjectHandle \<Rightarrow> 's \<Rightarrow> error option \<times> 's"
  ctx_FindObjects :: "SessionHandle \<Rightarrow> nat \<Rightarrow> 's \<Rightarrow> (ObjectHandle list \<times> bool \<times> error option) \<times> 's"
  ctx_FindObjectsFinal :: "SessionHandle \<Rightarrow> 's \<Rightarrow> error option \<times> 's"
  ctx_FindObjectsInit :: "SessionHandle \<Rightarrow> Attribute list \<Rightarrow> 's \<Rightarrow> error option \<times> 's"
  ctx_GenerateKey :: "SessionHandle \<Rightarrow> Mechanism list \<Rightarrow> Attribute list \<Rightarrow> 's
      \<Rightarrow> (ObjectHandle \<times> error option) \<times> 's"
  ctx_GenerateKeyPair :: "SessionHandle \<Rightarrow> Mechanism list \<Rightarrow> Attribute list \<Rightarrow> Attribute list \<Rightarrow> 's
      \<Rightarrow> (ObjectHandle \<times> ObjectHandle \<times> error option) \<times> 's"
  ctx_GetAttributeValue :: "SessionHandle \<Rightarrow> ObjectHandle \<Rightarrow> Attribute list \<Rightarrow> 's
      \<Rightarrow> (Attribute list \<times> error option) \<times> 's"
  ctx_SignInit :: "SessionHandle \<Rightarrow> Mechanism list \<Rightarrow> ObjectHandle \<Rightarrow> 's \<Rightarrow> error option \<times> 's"
  ctx_Sign :: "SessionHandle \<Rightarrow> byte list \<Rightarrow> 's \<Rightarrow> (byte list \<times> error option) \<times> 's"

text \<open>
  The functions of go-ethereum's \<^verbatim>\<open>crypto\<close> package that the file calls. They are
  pure; the program is modelled for every choice of such functions. A public key is its
  pair of coordinates, \<open>None\<close> the nil pointer.
\<close>

record Crypto =
  Ecrecover :: "byte list \<Rightarrow> byte list \<Rightarrow> byte list \<times> error option"
  UnmarshalPubkey :: "byte list \<Rightarrow> (int \<times> int) option \<times> error option"
  PubkeyToAddress :: "int \<times> int \<Rightarrow> byte list"

record 's p11Token =
  ctx :: "'s TokenCtx"
  session :: SessionHandle
  slot :: nat

section \<open>The program\<close>

text \<open>
  Each method of \<^verbatim>\<open>p11Token\<close> takes the token state last and returns its outcome with
  the new state. A method that runs the paging loop of \<^verbatim>\<open>findAllMatching\<close> may not
  return at all (a token can answer every page with more handles): its result is an
  option, \<open>None\<close> when it does not return. The \<^verbatim>\<open>log.Println\<close> and \<^verbatim>\<open>log.Printf\<close>
  calls only print and are left out, except for an index expression among their
  arguments, which can panic.
\<close>

subsection \<open>Object search\<close>

definition batchSize :: nat where
  "batchSize = 20"

text \<open>
  The \<^verbatim>\<open>for\<close> loop of \<^verbatim>\<open>findAllMatching\<close>. An error result \<open>Some e\<close> is the early
  \<^verbatim>\<open>return\<close> inside the loop, \<open>None\<close> is the \<^verbatim>\<open>break\<close>.
\<close>

partial_function (option) findAllMatching_loop ::
  "'s p11Token \<Rightarrow> ObjectHandle list \<Rightarrow> 's \<Rightarrow> ((ObjectHandle list \<times> error option) \<times> 's) option"
where
  "findAllMatching_loop p objects s =
     (case ctx_FindObjects (ctx p) (session p) batchSize s of
        ((res, hasMore, err), s1) \<Rightarrow>
          (case err of
             Some e \<Rightarrow> Some ((objects, Some (WithMessage e ''failed to search'')), s1)
           | None \<Rightarrow>
               if length res = 0 then Some ((objects, None), s1)
               else findAllMatching_loop p (objects @ res) s1))"

definition findAllMatching ::
  "'s p11Token \<Rightarrow> Attribute list \<Rightarrow> 's \<Rightarrow> ((ObjectHandle list \<times> error option) \<times> 's) option"
where
  "findAllMatching p template s =
     (case ctx_FindObjectsInit (ctx p) (session p) template s of
        (Some e, s1) \<Rightarrow> Some (([], Some e), s1)
      | (None, s1) \<Rightarrow>
          (case findAllMatching_loop p [] s1 of
             None \<Rightarrow> None
           | Some ((objects, Some e), s2) \<Rightarrow> Some ((objects, Some e), s2)
           | Some ((objects, None), s2) \<Rightarrow>
               (case ctx_FindObjectsFinal (ctx p) (session p) s2 of
                  (err, s3) \<Rightarrow> Some ((objects, err), s3))))"

definition findKeyByLabel ::
  "'s p11Token \<Rightarrow> string \<Rightarrow> 's \<Rightarrow> (ObjectHandle \<times> error option) \<times> 's"
where
  "findKeyByLabel p label s =
     (let template = [NewAttribute CKA_LABEL (GoString label)] in
      case ctx_FindObjectsInit (ctx p) (session p) template s of
        (Some e, s1) \<Rightarrow> ((0, Some e), s1)
      | (None, s1) \<Rightarrow>
          (case ctx_FindObjects (ctx p) (session p) 1 s1 of
             ((objects, hasMore, err), s2) \<Rightarrow>
               if length objects \<noteq> 1
               then ((0, Some (Errorf (''no key with label '%s'' @ [CHR 0x27]) (ArgString label))), s2)
               else (case ctx_FindObjectsFinal (ctx p) (session p) s2 of
                       (err', s3) \<Rightarrow> ((objects ! 0, err'), s3))))"

subsection \<open>The EC point of a public key\<close>

text \<open>
  One pass of the \<^verbatim>\<open>switch\<close> in \<^verbatim>\<open>ecPoint\<close> over the value \<open>v\<close> of an attribute, the
  conditions evaluated left to right with Go's short-circuit \<^verbatim>\<open>&&\<close>; \<open>None\<close> is the
  panic of an index out of range.
\<close>

definition ecPoint_case :: "byte list \<Rightarrow> byte list option" where
  "ecPoint_case v =
     (case (if length v mod 2 = 0
            then (case index v 0 of
                    None \<Rightarrow> None
                  | Some b0 \<Rightarrow>
                      if 4 = b0
                      then (case index v (length v - 1) of
                              None \<Rightarrow> None
                            | Some bl \<Rightarrow> Some (4 = bl))
                      else Some False)
            else Some False) of
        None \<Rightarrow> None
      | Some True \<Rightarrow> Some (take (length v - 1) v)
      | Some False \<Rightarrow>
          (case (case index v 0 of
                   None \<Rightarrow> None
                 | Some b0 \<Rightarrow>
                     if 4 = b0
                     then (case index v 2 of None \<Rightarrow> None | Some b2 \<Rightarrow> Some (4 = b2))
                     else Some False) of
             None \<Rightarrow> None
           | Some True \<Rightarrow> Some (drop 2 v)
           | Some False \<Rightarrow> Some v))"

fun ecPoint_loop :: "Attribute list \<Rightarrow> byte list \<Rightarrow> byte list option" where
  "ecPoint_loop [] ecpt = Some ecpt"
| "ecPoint_loop (a # attr) ecpt =
     (case ecPoint_case (Value a) of
        None \<Rightarrow> None
      | Some ecpt' \<Rightarrow> ecPoint_loop attr ecpt')"

text \<open>
  \<^verbatim>\<open>ecPoint\<close> only logs an error of \<^verbatim>\<open>GetAttributeValue\<close> and goes on with the
  attributes it got.
\<close>

definition ecPoint ::
  "'s TokenCtx \<Rightarrow> SessionHandle \<Rightarrow> ObjectHandle \<Rightarrow> 's \<Rightarrow> byte list option \<times> 's"
where
  "ecPoint pkcs11lib sh key s =
     (let template = [NewAttribute CKA_EC_POINT GoNil] in
      case ctx_GetAttributeValue pkcs11lib sh key template s of
        ((attr, err), s1) \<Rightarrow> (ecPoint_loop attr [], s1))"

subsection \<open>GetPublicKey, Sign and Verify\<close>

text \<open>
  The search template of \<^verbatim>\<open>GetPublicKey\<close> (class \<^verbatim>\<open>CKO_PUBLIC_KEY\<close>) and of \<^verbatim>\<open>Sign\<close>
  (class \<^verbatim>\<open>CKO_PRIVATE_KEY\<close>): the class, then the label and the key id when they are
  not empty.
\<close>

definition keyTemplate :: "nat \<Rightarrow> string \<Rightarrow> string \<Rightarrow> Attribute list" where
  "keyTemplate cls label keyid =
     [NewAttribute CKA_CLASS (GoUint cls)]
     @ (if label \<noteq> [] then [NewAttribute CKA_LABEL (GoString label)] else [])
     @ (if keyid \<noteq> [] then [NewAttribute CKA_ID (GoString keyid)] else [])"

definition errAmbiguous :: error where
  "errAmbiguous = ErrorsNew ''More than 1 matching key found, please specify both label and key id''"

definition errNoMatch :: error where
  "errNoMatch = ErrorsNew ''No matching keys found''"

text \<open>\<^verbatim>\<open>GetPublicKey\<close> from \<^verbatim>\<open>ecPoint(p.ctx, p.session, objects[0])\<close> on.\<close>

definition GetPublicKey_found ::
  "'s p11Token \<Rightarrow> Crypto \<Rightarrow> ObjectHandle \<Rightarrow> 's
     \<Rightarrow> (((int \<times> int) option \<times> byte list \<times> error option) outcome \<times> 's) option"
where
  "GetPublicKey_found p cr obj s =
     (case ecPoint (ctx p) (session p) obj s of
        (None, s1) \<Rightarrow> Some (Panic, s1)
      | (Some ecpt, s1) \<Rightarrow>
          (case UnmarshalPubkey cr ecpt of
             (pub, err) \<Rightarrow> Some (Return (pub, ecpt, err), s1)))"

definition GetPublicKey ::
  "'s p11Token \<Rightarrow> Crypto \<Rightarrow> string \<Rightarrow> string \<Rightarrow> 's
     \<Rightarrow> (((int \<times> int) option \<times> byte list \<times> error option) outcome \<times> 's) option"
where
  "GetPublicKey p cr label keyid s =
     (case findAllMatching p (keyTemplate CKO_PUBLIC_KEY label keyid) s of
        None \<Rightarrow> None
      | Some ((objects, err), s1) \<Rightarrow>
          if err \<noteq> None then Some (Return (None, [], err), s1)
          else if length objects > 1 then Some (Return (None, [], Some errAmbiguous), s1)
          else if length objects = 0 then Some (Return (None, [], Some errNoMatch), s1)
          else GetPublicKey_found p cr (objects ! 0) s1)"

text \<open>
  \<^verbatim>\<open>Sign\<close> from \<^verbatim>\<open>sigR, sigS := sig[:32], sig[32:64]\<close> on: the normalisation of the raw
  signature and the search for the recovery id. The slice expressions panic on a raw
  signature shorter than 64 bytes (its capacity taken to be its length).
\<close>

definition normalizeRS :: "byte list \<Rightarrow> byte list" where
  "normalizeRS sig =
     (let sigR = take 32 sig;
          sigS = take 32 (drop 32 sig);
          sigSNum = SetBytes sigS;
          sigS = (if sigSNum > secp256k1HalfN then Bytes (secp256k1N - sigSNum) else sigS)
      in fixLen sigR @ fixLen sigS)"

definition Sign_recover ::
  "Crypto \<Rightarrow> byte list \<Rightarrow> byte list \<Rightarrow> byte list \<Rightarrow> (byte list \<times> error option) outcome"
where
  "Sign_recover cr hash sig ecpt =
     (if length sig < 64 then Panic
      else
        let sigRS = normalizeRS sig;
            sigRSV = sigRS @ [0]
        in case Ecrecover cr hash sigRSV of
             (recPub, err) \<Rightarrow>
               if err \<noteq> None then Return ([], err)
               else if recPub = ecpt then Return (sigRSV[64 := sigRSV ! 64 + 27], None)
               else
                 let sigRSV = sigRS @ [1]
                 in case Ecrecover cr hash sigRSV of
                      (recPub, err) \<Rightarrow>
                        if err \<noteq> None then Return ([], err)
                        else if recPub = ecpt then Return (sigRSV[64 := sigRSV ! 64 + 27], None)
                        else Return ([], Some (ErrorsNew ''Could not generate a valid signature'')))"

text \<open>\<^verbatim>\<open>Sign\<close> from \<^verbatim>\<open>p.ctx.SignInit\<close> on, with \<open>obj\<close> for \<^verbatim>\<open>objects[0]\<close>.\<close>

definition Sign_found ::
  "'s p11Token \<Rightarrow> Crypto \<Rightarrow> string \<Rightarrow> string \<Rightarrow> byte list \<Rightarrow> ObjectHandle \<Rightarrow> 's
     \<Rightarrow> ((byte list \<times> error option) outcome \<times> 's) option"
where
  "Sign_found p cr label keyid hash obj s =
     (case ctx_SignInit (ctx p) (session p) [NewMechanism CKM_ECDSA GoNil] obj s of
        (Some e, s1) \<Rightarrow> Some (Fatal ''Signing Initiation failed (%s)'' e, s1)
      | (None, s1) \<Rightarrow>
          (case ctx_Sign (ctx p) (session p) hash s1 of
             ((sig, err), s2) \<Rightarrow>
               if err \<noteq> None then Some (Return ([], err), s2)
               else
                 (case GetPublicKey p cr label keyid s2 of
                    None \<Rightarrow> None
                  | Some (Panic, s3) \<Rightarrow> Some (Panic, s3)
                  | Some (Fatal m e, s3) \<Rightarrow> Some (Fatal m e, s3)
                  | Some (Return (pub, ecpt, err'), s3) \<Rightarrow>
                      if err' \<noteq> None then Some (Return ([], err'), s3)
                      else Some (Sign_recover cr hash sig ecpt, s3))))"

definition Sign ::
  "'s p11Token \<Rightarrow> Crypto \<Rightarrow> string \<Rightarrow> string \<Rightarrow> byte list \<Rightarrow> 's
     \<Rightarrow> ((byte list \<times> error option) outcome \<times> 's) option"
where
  "Sign p cr label keyid hash s =
     (case findAllMatching p (keyTemplate CKO_PRIVATE_KEY label keyid) s of
        None \<Rightarrow> None
      | Some ((objects, err), s1) \<Rightarrow>
          if err \<noteq> None then Some (Return ([], err), s1)
          else if length objects > 1 then Some (Return ([], Some errAmbiguous), s1)
          else if length objects = 0 then Some (Return ([], Some errNoMatch), s1)
          else Sign_found p cr label keyid hash (objects ! 0) s1)"

definition Verify ::
  "'s p11Token \<Rightarrow> Crypto \<Rightarrow> string \<Rightarrow> string \<Rightarrow> byte list \<Rightarrow> byte list \<Rightarrow> 's
     \<Rightarrow> (error option outcome \<times> 's) option"
where
  "Verify p cr label keyid hash signature s =
     (case GetPublicKey p cr label keyid s of
        None \<Rightarrow> None
      | Some (Panic, s1) \<Rightarrow> Some (Panic, s1)
      | Some (Fatal m e, s1) \<Rightarrow> Some (Fatal m e, s1)
      | Some (Return (pub, ecpt, err), s1) \<Rightarrow>
          if err \<noteq> None then Some (Return err, s1)
          else
            (case Ecrecover cr hash signature of
               (recPub, err') \<Rightarrow>
                 if err' \<noteq> None then Some (Return err', s1)
                 else if recPub = ecpt then Some (Return None, s1)
                 else Some (Return (Some (ErrorsNew ''Not verified'')), s1)))"

text \<open>
  \<^verbatim>\<open>recoverAddress\<close> turns a recovery byte of 27 or 28 into the recovery id 0 or 1
  before it calls \<^verbatim>\<open>Ecrecover\<close>. \<^verbatim>\<open>signature[64]\<close> panics on a shorter signature, and
  \<^verbatim>\<open>*pub\<close> on a nil key. The zero \<^verbatim>\<open>common.Address\<close> is twenty zero bytes.
\<close>

definition recoverAddress ::
  "Crypto \<Rightarrow> byte list \<Rightarrow> byte list \<Rightarrow> (byte list \<times> error option) outcome"
where
  "recoverAddress cr hash signature =
     (case index signature 64 of
        None \<Rightarrow> Panic
      | Some v \<Rightarrow>
          let signature = (if v = 27 \<or> v = 28 then signature[64 := v - 27] else signature)
          in case Ecrecover cr hash signature of
               (rawPub, err) \<Rightarrow>
                 if err \<noteq> None then Return (replicate 20 0, err)
                 else
                   (case UnmarshalPubkey cr rawPub of
                      (pub, err') \<Rightarrow>
                        if err' \<noteq> None then Return (replicate 20 0, err')
                        else (case pub of
                                None \<Rightarrow> Panic
                              | Some k \<Rightarrow> Return (PubkeyToAddress cr k, None))))"

subsection \<open>DeleteAllExcept\<close>

text \<open>
  The inner loop over \<^verbatim>\<open>keyLabels\<close>: every comparison reads \<^verbatim>\<open>template[0].Value\<close>,
  and the loop stops at the first equal label. \<open>None\<close> is the panic of \<^verbatim>\<open>template[0]\<close>
  on an empty template.
\<close>

fun keepLabel :: "string list \<Rightarrow> Attribute list \<Rightarrow> bool option" where
  "keepLabel [] template = Some False"
| "keepLabel (l # keyLabels) template =
     (case index template 0 of
        None \<Rightarrow> None
      | Some a \<Rightarrow>
          if l = string_of_bytes (Value a) then Some True
          else keepLabel keyLabels template)"

text \<open>
  The loop over \<^verbatim>\<open>objects\<close>. The variable \<^verbatim>\<open>template\<close> is assigned the attribute list
  that \<^verbatim>\<open>GetAttributeValue\<close> returns, also when the call fails, and goes into the next
  round as it is. The \<^verbatim>\<open>log.Printf\<close> of the deleted label reads \<^verbatim>\<open>template[0]\<close>.
\<close>

fun DeleteAllExcept_loop ::
  "'s p11Token \<Rightarrow> string list \<Rightarrow> ObjectHandle list \<Rightarrow> Attribute list \<Rightarrow> 's
     \<Rightarrow> error option outcome \<times> 's"
where
  "DeleteAllExcept_loop p keyLabels [] template s = (Return None, s)"
| "DeleteAllExcept_loop p keyLabels (obj # objects) template s =
     (case ctx_GetAttributeValue (ctx p) (session p) obj template s of
        ((template', err), s1) \<Rightarrow>
          (case (case err of
                   None \<Rightarrow> Inr True
                 | Some (P11Error rv) \<Rightarrow>
                     if rv = CKR_ATTRIBUTE_TYPE_INVALID then Inr False
                     else Inl (WithMessage (P11Error rv) ''failed to get label'')
                 | Some e \<Rightarrow> Inl (WithMessage e ''failed to get label'')) of
             Inl e \<Rightarrow> (Return (Some e), s1)
           | Inr labelExists \<Rightarrow>
               (case (if labelExists then keepLabel keyLabels template' else Some False) of
                  None \<Rightarrow> (Panic, s1)
                | Some True \<Rightarrow> DeleteAllExcept_loop p keyLabels objects template' s1
                | Some False \<Rightarrow>
                    if labelExists \<and> index template' 0 = None then (Panic, s1)
                    else
                      (case ctx_DestroyObject (ctx p) (session p) obj s1 of
                         (Some e, s2) \<Rightarrow>
                           (Return (Some (WithMessage e ''failed to destroy object'')), s2)
                       | (None, s2) \<Rightarrow>
                           DeleteAllExcept_loop p keyLabels objects template' s2))))"

definition DeleteAllExcept ::
  "'s p11Token \<Rightarrow> string list \<Rightarrow> 's \<Rightarrow> (error option outcome \<times> 's) option"
where
  "DeleteAllExcept p keyLabels s =
     (case findAllMatching p [] s of
        None \<Rightarrow> None
      | Some ((objects, err), s1) \<Rightarrow>
          if err \<noteq> None then Some (Return err, s1)
          else
            let template = [NewAttribute CKA_LABEL GoNil]
            in Some (DeleteAllExcept_loop p keyLabels objects template s1))"

subsection \<open>Key generation\<close>

text \<open>Go's integer division truncates towards zero.\<close>

definition goDiv :: "int \<Rightarrow> int \<Rightarrow> int" where
  "goDiv a b = sgn a * sgn b * (\<bar>a\<bar> div \<bar>b\<bar>)"

text \<open>
  \<^verbatim>\<open>asn1.Marshal(asn1.ObjectIdentifier{1, 3, 132, 0, 10})\<close>: the DER encoding of the
  object identifier of secp256k1.
\<close>

definition marshaledOID :: "byte list" where
  "marshaledOID = [0x06, 0x05, 0x2B, 0x81, 0x04, 0x00, 0x0A]"

definition GenerateECKey ::
  "'s p11Token \<Rightarrow> string \<Rightarrow> string \<Rightarrow> 's \<Rightarrow> (error option outcome \<times> 's) option"
where
  "GenerateECKey p label keyid s =
     (let template =
            [NewAttribute CKA_CLASS (GoUint CKO_PUBLIC_KEY)]
            @ (if label \<noteq> [] then [NewAttribute CKA_LABEL (GoString label)] else [])
      in case findAllMatching p template s of
           None \<Rightarrow> None
         | Some ((objects, err), s1) \<Rightarrow>
             if err \<noteq> None then Some (Return err, s1)
             else if length objects > 0
             then Some (Return (Some (ErrorsNew ''Key with this label already exists'')), s1)
             else
               let publicKeyTemplate =
                     [NewAttribute CKA_KEY_TYPE (GoUint CKK_EC),
                      NewAttribute CKA_CLASS (GoUint CKO_PUBLIC_KEY),
                      NewAttribute CKA_TOKEN (GoBool True),
                      NewAttribute CKA_VERIFY (GoBool True),
                      NewAttribute CKA_EC_PARAMS (GoBytes marshaledOID),
                      NewAttribute CKA_LABEL (GoString label)];
                   privateKeyTemplate =
                     [NewAttribute CKA_KEY_TYPE (GoUint CKK_EC),
                      NewAttribute CKA_CLASS (GoUint CKO_PRIVATE_KEY),
                      NewAttribute CKA_TOKEN (GoBool True),
                      NewAttribute CKA_PRIVATE (GoBool True),
                      NewAttribute CKA_SIGN (GoBool True),
                      NewAttribute CKA_LABEL (GoString label),
                      NewAttribute CKA_EXTRACTABLE (GoBool False),
                      NewAttribute CKA_SENSITIVE (GoBool True)];
                   ident = (if keyid \<noteq> [] then keyid else label);
                   privateKeyTemplate = privateKeyTemplate @ [NewAttribute CKA_ID (GoString ident)];
                   publicKeyTemplate = publicKeyTemplate @ [NewAttribute CKA_ID (GoString ident)]
               in case ctx_GenerateKeyPair (ctx p) (session p)
                         [NewMechanism CKM_EC_KEY_PAIR_GEN GoNil]
                         publicKeyTemplate privateKeyTemplate s1 of
                    ((pub, priv, err'), s2) \<Rightarrow> Some (Return err', s2))"

definition GenerateAESKey ::
  "'s p11Token \<Rightarrow> string \<Rightarrow> int \<Rightarrow> 's \<Rightarrow> error option \<times> 's"
where
  "GenerateAESKey p label keysize s =
     (let privateKeyTemplate =
            [NewAttribute CKA_TOKEN (GoBool True),
             NewAttribute CKA_SIGN (GoBool True),
             NewAttribute CKA_LABEL (GoString label),
             NewAttribute CKA_SENSITIVE (GoBool True),
             NewAttribute CKA_EXTRACTABLE (GoBool True),
             NewAttribute CKA_VALUE_LEN (GoInt (goDiv keysize 8))]
      in case ctx_GenerateKey (ctx p) (session p)
                [NewMechanism CKM_AES_KEY_GEN (GoBytes (replicate 16 0))]
                privateKeyTemplate s of
           ((key, err), s1) \<Rightarrow> (err, s1))"

definition GenerateRSAKey ::
  "'s p11Token \<Rightarrow> string \<Rightarrow> int \<Rightarrow> 's \<Rightarrow> error option \<times> 's"
where
  "GenerateRSAKey p label keysize s =
     (let publicKeyTemplate =
            [NewAttribute CKA_CLASS (GoUint CKO_PUBLIC_KEY),
             NewAttribute CKA_KEY_TYPE (GoUint CKK_RSA),
             NewAttribute CKA_TOKEN (GoBool True),
             NewAttribute CKA_VERIFY (GoBool True),
             NewAttribute CKA_PUBLIC_EXPONENT (GoBytes [1, 0, 1]),
             NewAttribute CKA_LABEL (GoString label),
             NewAttribute CKA_MODULUS_BITS (GoInt keysize)];
          privateKeyTemplate =
            [NewAttribute CKA_EXTRACTABLE (GoBool True),
             NewAttribute CKA_TOKEN (GoBool True),
             NewAttribute CKA_SENSITIVE (GoBool True),
             NewAttribute CKA_SIGN (GoBool True),
             NewAttribute CKA_LABEL (GoString label)]
      in case ctx_GenerateKeyPair (ctx p) (session p)
                [NewMechanism CKM_RSA_PKCS_KEY_PAIR_GEN GoNil]
                publicKeyTemplate privateKeyTemplate s of
           ((pub, priv, err), s1) \<Rightarrow> (err, s1))"

definition validRSASize :: "int list" where "validRSASize = [1024, 2048, 3072, 4096]"
definition validAESSize :: "int list" where "validAESSize = [128, 192, 256]"
definition validECSize :: "int list" where "validECSize = [128, 192, 256]"

definition GenerateKeyPair ::
  "'s p11Token \<Rightarrow> string \<Rightarrow> string \<Rightarrow> string \<Rightarrow> string \<Rightarrow> int \<Rightarrow> 's
     \<Rightarrow> (error option outcome \<times> 's) option"
where
  "GenerateKeyPair p label keyid algorithm keytype keysize s =
     (if keytype = ''RSA'' then
        if isValidSize validRSASize keysize
        then (case GenerateRSAKey p label keysize s of (err, s1) \<Rightarrow> Some (Return err, s1))
        else Some (Return (Some (Errorf ''Invalid RSA key size: %d'' (ArgInt keysize))), s)
      else if keytype = ''AES'' then
        if isValidSize validAESSize keysize
        then (case GenerateAESKey p label keysize s of (err, s1) \<Rightarrow> Some (Return err, s1))
        else Some (Return (Some (Errorf ''Invalid AES key size: %d'' (ArgInt keysize))), s)
      else if keytype = ''EC'' then
        if isValidSize validECSize keysize \<and> algorithm = ''S256''
        then GenerateECKey p label keyid s
        else Some (Return (Some (Errorf ''Invalid EC key size: %d'' (ArgInt keysize))), s)
      else Some (Return (Some (Errorf ''Invalid key type: %s'' (ArgString keytype))), s))"

section \<open>An in-memory token\<close>

text \<open>
  One implementation of \<^verbatim>\<open>TokenCtx\<close>, to run the program on concrete tokens: a list of
  objects with their attributes, at most one open search context, a table of calls that
  are made to fail, the raw signature its \<^verbatim>\<open>Sign\<close> hands out, and the log of the
  calls it received. Like the Go binding, an operation that fails returns the zero value
  (a nil slice) beside its error.
\<close>

datatype call =
    FindObjectsInitCall | FindObjectsCall | FindObjectsFinalCall
  | GetAttributeValueCall ObjectHandle | DestroyObjectCall ObjectHandle
  | SignInitCall | SignCall | GenerateKeyCall | GenerateKeyPairCall

record memToken =
  tokObjects :: "(ObjectHandle \<times> Attribute list) list"
  tokSearch :: "ObjectHandle list option"
  tokNext :: ObjectHandle
  tokFaults :: "(call \<times> error) list"
  tokSignature :: "byte list"
  tokCalls :: "call list"

definition CKR_KEY_HANDLE_INVALID :: nat where "CKR_KEY_HANDLE_INVALID = 96"
definition CKR_OBJECT_HANDLE_INVALID :: nat where "CKR_OBJECT_HANDLE_INVALID = 130"
definition CKR_OPERATION_ACTIVE :: nat where "CKR_OPERATION_ACTIVE = 144"
definition CKR_OPERATION_NOT_INITIALIZED :: nat where "CKR_OPERATION_NOT_INITIALIZED = 145"

definition logCall :: "call \<Rightarrow> memToken \<Rightarrow> memToken" where
  "logCall c s = s\<lparr>tokCalls := tokCalls s @ [c]\<rparr>"

definition matches :: "Attribute list \<Rightarrow> Attribute list \<Rightarrow> bool" where
  "matches template attrs = list_all (\<lambda>a. a \<in> set attrs) template"

definition mem_FindObjectsInit ::
  "SessionHandle \<Rightarrow> Attribute list \<Rightarrow> memToken \<Rightarrow> error option \<times> memToken"
where
  "mem_FindObjectsInit sh template s0 =
     (let s = logCall FindObjectsInitCall s0 in
      case map_of (tokFaults s) FindObjectsInitCall of
        Some e \<Rightarrow> (Some e, s)
      | None \<Rightarrow>
          if tokSearch s \<noteq> None then (Some (P11Error CKR_OPERATION_ACTIVE), s)
          else (None, s\<lparr>tokSearch :=
                  Some (map fst (filter (\<lambda>ob. matches template (snd ob)) (tokObjects s)))\<rparr>))"

definition mem_FindObjects ::
  "SessionHandle \<Rightarrow> nat \<Rightarrow> memToken \<Rightarrow> (ObjectHandle list \<times> bool \<times> error option) \<times> memToken"
where
  "mem_FindObjects sh n s0 =
     (let s = logCall FindObjectsCall s0 in
      case map_of (tokFaults s) FindObjectsCall of
        Some e \<Rightarrow> (([], False, Some e), s)
      | None \<Rightarrow>
          (case tokSearch s of
             None \<Rightarrow> (([], False, Some (P11Error CKR_OPERATION_NOT_INITIALIZED)), s)
           | Some hs \<Rightarrow> ((take n hs, False, None), s\<lparr>tokSearch := Some (drop n hs)\<rparr>)))"

definition mem_FindObjectsFinal :: "SessionHandle \<Rightarrow> memToken \<Rightarrow> error option \<times> memToken" where
  "mem_FindObjectsFinal sh s0 =
     (let s = logCall FindObjectsFinalCall s0 in
      case map_of (tokFaults s) FindObjectsFinalCall of
        Some e \<Rightarrow> (Some e, s)
      | None \<Rightarrow>
          if tokSearch s = None then (Some (P11Error CKR_OPERATION_NOT_INITIALIZED), s)
          else (None, s\<lparr>tokSearch := None\<rparr>))"

definition readAttribute :: "Attribute list \<Rightarrow> Attribute \<Rightarrow> Attribute" where
  "readAttribute attrs a =
     (case find (\<lambda>b. Type b = Type a) attrs of Some b \<Rightarrow> b | None \<Rightarrow> a)"

definition mem_GetAttributeValue ::
  "SessionHandle \<Rightarrow> ObjectHandle \<Rightarrow> Attribute list \<Rightarrow> memToken
     \<Rightarrow> (Attribute list \<times> error option) \<times> memToken"
where
  "mem_GetAttributeValue sh h template s0 =
     (let s = logCall (GetAttributeValueCall h) s0 in
      case map_of (tokFaults s) (GetAttributeValueCall h) of
        Some e \<Rightarrow> (([], Some e), s)
      | None \<Rightarrow>
          (case map_of (tokObjects s) h of
             None \<Rightarrow> (([], Some (P11Error CKR_OBJECT_HANDLE_INVALID)), s)
           | Some attrs \<Rightarrow>
               if list_all (\<lambda>a. Type a \<in> set (map Type attrs)) template
               then ((map (readAttribute attrs) template, None), s)
               else (([], Some (P11Error CKR_ATTRIBUTE_TYPE_INVALID)), s)))"

definition mem_DestroyObject ::
  "SessionHandle \<Rightarrow> ObjectHandle \<Rightarrow> memToken \<Rightarrow> error option \<times> memToken"
where
  "mem_DestroyObject sh h s0 =
     (let s = logCall (DestroyObjectCall h) s0 in
      case map_of (tokFaults s) (DestroyObjectCall h) of
        Some e \<Rightarrow> (Some e, s)
      | None \<Rightarrow>
          if map_of (tokObjects s) h = None then (Some (P11Error CKR_OBJECT_HANDLE_INVALID), s)
          else (None, s\<lparr>tokObjects := filter (\<lambda>ob. fst ob \<noteq> h) (tokObjects s)\<rparr>))"

definition mem_SignInit ::
  "SessionHandle \<Rightarrow> Mechanism list \<Rightarrow> ObjectHandle \<Rightarrow> memToken \<Rightarrow> error option \<times> memToken"
where
  "mem_SignInit sh m h s0 =
     (let s = logCall SignInitCall s0 in
      case map_of (tokFaults s) SignInitCall of
        Some e \<Rightarrow> (Some e, s)
      | None \<Rightarrow>
          if map_of (tokObjects s) h = None then (Some (P11Error CKR_KEY_HANDLE_INVALID), s)
          else (None, s))"

definition mem_Sign ::
  "SessionHandle \<Rightarrow> byte list \<Rightarrow> memToken \<Rightarrow> (byte list \<times> error option) \<times> memToken"
where
  "mem_Sign sh message s0 =
     (let s = logCall SignCall s0 in
      case map_of (tokFaults s) SignCall of
        Some e \<Rightarrow> (([], Some e), s)
      | None \<Rightarrow> ((tokSignature s, None), s))"

definition mem_GenerateKey ::
  "SessionHandle \<Rightarrow> Mechanism list \<Rightarrow> Attribute list \<Rightarrow> memToken
     \<Rightarrow> (ObjectHandle \<times> error option) \<times> memToken"
where
  "mem_GenerateKey sh m template s0 =
     (let s = logCall GenerateKeyCall s0 in
      case map_of (tokFaults s) GenerateKeyCall of
        Some e \<Rightarrow> ((0, Some e), s)
      | None \<Rightarrow>
          ((tokNext s, None),
           s\<lparr>tokObjects := tokObjects s @ [(tokNext s, template)], tokNext := tokNext s + 1\<rparr>))"

definition mem_GenerateKeyPair ::
  "SessionHandle \<Rightarrow> Mechanism list \<Rightarrow> Attribute list \<Rightarrow> Attribute list \<Rightarrow> memToken
     \<Rightarrow> (ObjectHandle \<times> ObjectHandle \<times> error option) \<times> memToken"
where
  "mem_GenerateKeyPair sh m public private s0 =
     (let s = logCall GenerateKeyPairCall s0 in
      case map_of (tokFaults s) GenerateKeyPairCall of
        Some e \<Rightarrow> ((0, 0, Some e), s)
      | None \<Rightarrow>
          ((tokNext s, tokNext s + 1, None),
           s\<lparr>tokObjects := tokObjects s @ [(tokNext s, public), (tokNext s + 1, private)],
             tokNext := tokNext s + 2\<rparr>))"

definition memCtx :: "memToken TokenCtx" where
  "memCtx =
     \<lparr>ctx_DestroyObject = mem_DestroyObject,
      ctx_FindObjects = mem_FindObjects,
      ctx_FindObjectsFinal = mem_FindObjectsFinal,
      ctx_FindObjectsInit = mem_FindObjectsInit,
      ctx_GenerateKey = mem_GenerateKey,
      ctx_GenerateKeyPair = mem_GenerateKeyPair,
      ctx_GetAttributeValue = mem_GetAttributeValue,
      ctx_SignInit = mem_SignInit,
      ctx_Sign = mem_Sign\<rparr>"

definition memP :: "memToken p11Token" where
  "memP = \<lparr>ctx = memCtx, session = 1, slot = 0\<rparr>"

definition emptyToken :: memToken where
  "emptyToken =
     \<lparr>tokObjects = [], tokSearch = None, tokNext = 1, tokFaults = [], tokSignature = [],
      tokCalls = []\<rparr>"

text \<open>
  A stand-in for the elliptic-curve library with the interface of go-ethereum's
  \<^verbatim>\<open>Ecrecover\<close>: it takes a 32-byte hash and a 65-byte signature whose last byte, the
  recovery id, is below 4, and answers anything else with an error. Every signature
  it accepts recovers the same point \<open>toyPoint\<close>.
\<close>

definition toyPoint :: "byte list" where
  "toyPoint = 4 # replicate 32 0x11 @ replicate 32 0x22"

definition toyCrypto :: Crypto where
  "toyCrypto =
     \<lparr>Ecrecover = (\<lambda>hash sig.
        if length hash = 32 \<and> length sig = 65 \<and> sig ! 64 < 4 then (toyPoint, None)
        else ([], Some (ErrorsNew ''invalid signature recovery id''))),
      UnmarshalPubkey = (\<lambda>b. (Some (SetBytes (take 32 (drop 1 b)), SetBytes (drop 33 b)), None)),
      PubkeyToAddress = (\<lambda>k. replicate 20 0xEE)\<rparr>"

subsection \<open>Tokens and signatures to run the program on\<close>

text \<open>
  A token that holds one EC key pair labelled \<^verbatim>\<open>clitest\<close>: the public key (handle 1)
  with its EC point in the DER wrapping tokens use (\<^verbatim>\<open>04 41\<close> before the point), and
  the private key (handle 2). Its \<^verbatim>\<open>Sign\<close> hands out \<open>raw\<close>.
\<close>

definition pairObjects :: "(ObjectHandle \<times> Attribute list) list" where
  "pairObjects =
     [(1, [NewAttribute CKA_CLASS (GoUint CKO_PUBLIC_KEY),
           NewAttribute CKA_LABEL (GoString ''clitest''),
           NewAttribute CKA_ID (GoString ''clitest''),
           NewAttribute CKA_EC_POINT (GoBytes ([0x04, 0x41] @ toyPoint))]),
      (2, [NewAttribute CKA_CLASS (GoUint CKO_PRIVATE_KEY),
           NewAttribute CKA_LABEL (GoString ''clitest''),
           NewAttribute CKA_ID (GoString ''clitest'')])]"

definition pairToken :: "byte list \<Rightarrow> memToken" where
  "pairToken raw = emptyToken\<lparr>tokObjects := pairObjects, tokNext := 3, tokSignature := raw\<rparr>"

definition hash1 :: "byte list" where
  "hash1 = replicate 32 0x5A"

text \<open>
  Raw signatures \<open>R \<parallel> S\<close>: one whose halves have no leading zero byte, one whose
  \<open>S = 0x0080\<dots>01\<close> starts with a zero byte, and one whose \<open>R\<close> does.
\<close>

definition rawFull :: "byte list" where
  "rawFull = replicate 32 0xAB @ replicate 32 0x33"

definition rawShortS :: "byte list" where
  "rawShortS = replicate 32 0xAB @ [0x00, 0x80] @ replicate 29 0x00 @ [0x01]"

definition rawShortR :: "byte list" where
  "rawShortR = [0x00] @ replicate 31 0xAB @ replicate 32 0x33"

text \<open>
  A token with an object that has no label attribute (handle 1) before one labelled
  \<^verbatim>\<open>old\<close> (handle 2).
\<close>

definition mixedToken :: memToken where
  "mixedToken =
     emptyToken\<lparr>tokObjects :=
        [(1, [NewAttribute CKA_CLASS (GoUint CKO_SECRET_KEY)]),
         (2, [NewAttribute CKA_CLASS (GoUint CKO_SECRET_KEY),
              NewAttribute CKA_LABEL (GoString ''old'')])],
       tokNext := 3\<rparr>"

text \<open>The key-pair token with a second pair under the same label (handles 3 and 4).\<close>

definition twoPairToken :: memToken where
  "twoPairToken =
     emptyToken\<lparr>tokObjects :=
        pairObjects @
        [(3, [NewAttribute CKA_CLASS (GoUint CKO_PUBLIC_KEY),
              NewAttribute CKA_LABEL (GoString ''clitest''),
              NewAttribute CKA_ID (GoString ''second'')]),
         (4, [NewAttribute CKA_CLASS (GoUint CKO_PRIVATE_KEY),
              NewAttribute CKA_LABEL (GoString ''clitest''),
              NewAttribute CKA_ID (GoString ''second'')])],
       tokNext := 5\<rparr>"

text \<open>A token whose \<^verbatim>\<open>FindObjects\<close> fails, and the key-pair token with a failing \<^verbatim>\<open>SignInit\<close>.\<close>

definition searchFaultToken :: memToken where
  "searchFaultToken = emptyToken\<lparr>tokFaults := [(FindObjectsCall, P11Error 5)]\<rparr>"

definition signFaultToken :: memToken where
  "signFaultToken = (pairToken rawFull)\<lparr>tokFaults := [(SignInitCall, P11Error 112)]\<rparr>"

text \<open>A token whose only public key has the one-byte EC point \<^verbatim>\<open>04\<close>.\<close>

definition shortPointToken :: memToken where
  "shortPointToken =
     emptyToken\<lparr>tokObjects :=
        [(1, [NewAttribute CKA_CLASS (GoUint CKO_PUBLIC_KEY),
              NewAttribute CKA_LABEL (GoString ''clitest''),
              NewAttribute CKA_EC_POINT (GoBytes [0x04])])],
       tokNext := 2\<rparr>"

text \<open>
  The valid-size table of the specification: RSA 1024/2048/3072/4096, AES 128/192/256,
  EC 256. It is the table the claim about \<^verbatim>\<open>GenerateKeyPair\<close> is read against, not
  part of the program.
\<close>

definition documentedSizes :: "string \<Rightarrow> int list" where
  "documentedSizes keytype =
     (if keytype = ''RSA'' then [1024, 2048, 3072, 4096]
      else if keytype = ''AES'' then [128, 192, 256]
      else if keytype = ''EC'' then [256]
      else [])"

section \<open>Facts about the pure functions\<close>

declare natBytes.simps [simp del]

lemma isValidSize_set: "isValidSize sizes n = (n \<in> set sizes)"
  by (induction sizes) auto

lemma length_copy: "length (copy dst src) = length dst"
  by (simp add: copy_def Let_def)

lemma length_fixLen: "length (fixLen b) = 32"
  by (simp add: fixLen_def length_copy HashLength_def)

lemma length_normalizeRS: "length (normalizeRS sg) = 64"
  by (simp add: normalizeRS_def Let_def length_fixLen)

text \<open>
  The value of a byte string followed by \<open>k\<close> more bytes is shifted by \<open>k\<close> bytes; leading
  zero bytes do not count.
\<close>

lemma SetBytes_append: "SetBytes (xs @ ys) = SetBytes xs * 256 ^ length ys + SetBytes ys"
proof -
  let ?f = "\<lambda>(acc :: int) (x :: byte). acc * 256 + uint x"
  have shift: "foldl ?f a ys = a * 256 ^ length ys + foldl ?f 0 ys" for a ys
  proof (induction ys arbitrary: a)
    case Nil
    show ?case by simp
  next
    case (Cons y ys)
    have "foldl ?f a (y # ys) = (a * 256 + uint y) * 256 ^ length ys + foldl ?f 0 ys"
      using Cons.IH[of "a * 256 + uint y"] by simp
    moreover have "foldl ?f 0 (y # ys) = uint y * 256 ^ length ys + foldl ?f 0 ys"
      using Cons.IH[of "uint y"] by simp
    ultimately show ?case by (simp add: algebra_simps)
  qed
  show ?thesis
    unfolding SetBytes_def foldl_append by (rule shift)
qed

lemma SetBytes_zeros: "SetBytes (replicate k 0) = 0"
  by (induction k) (simp_all add: SetBytes_def)

lemma SetBytes_skipZeros: "SetBytes (skipZeros b) = SetBytes b"
  by (induction b) (simp_all add: SetBytes_def)

lemma length_skipZeros: "length (skipZeros b) \<le> length b"
  by (induction b) auto

text \<open>
  \<^verbatim>\<open>fixLen\<close> writes the bytes that are left after the leading zeros at the start of the
  32-byte buffer: the zero bytes of the buffer follow them.
\<close>

lemma fixLen_right_pad:
  "length b \<le> 32 \<Longrightarrow> fixLen b = skipZeros b @ replicate (32 - length (skipZeros b)) 0"
  using length_skipZeros[of b]
  by (simp add: fixLen_def copy_def HashLength_def Let_def min_def)

lemma SetBytes_fixLen:
  "length b \<le> 32 \<Longrightarrow> SetBytes (fixLen b) = SetBytes b * 256 ^ (32 - length (skipZeros b))"
  by (simp add: fixLen_right_pad SetBytes_append SetBytes_zeros SetBytes_skipZeros)

text \<open>
  The bytes of \<^verbatim>\<open>big.Int.Bytes\<close> read back give the absolute value, and a value below
  \<open>256 ^ k\<close> has at most \<open>k\<close> of them.
\<close>

lemma SetBytes_snoc: "SetBytes (xs @ [x]) = SetBytes xs * 256 + uint x"
  by (simp add: SetBytes_def)

lemma SetBytes_bound: "0 \<le> SetBytes b \<and> SetBytes b < 256 ^ length b"
proof (induction b rule: rev_induct)
  case Nil
  show ?case by (simp add: SetBytes_def)
next
  case (snoc x xs)
  have "uint x < 256" using uint_bounded[of x] by simp
  moreover have "0 \<le> uint x" by simp
  moreover from snoc have "SetBytes xs + 1 \<le> 256 ^ length xs" by simp
  then have "(SetBytes xs + 1) * 256 \<le> 256 ^ length xs * 256" by (rule mult_right_mono) simp
  ultimately show ?case using snoc by (simp add: SetBytes_snoc algebra_simps)
qed

lemma SetBytes_natBytes: "SetBytes (natBytes n) = int n"
proof (induction n rule: natBytes.induct)
  case (1 n)
  show ?case
  proof (cases "n = 0")
    case True
    then show ?thesis by (simp add: natBytes.simps SetBytes_def)
  next
    case False
    have "uint (of_nat (n mod 256) :: byte) = int (n mod 256)"
      by (simp add: uint_nat unat_of_nat)
    with False 1 show ?thesis
      by (subst natBytes.simps) (simp add: SetBytes_snoc zdiv_int zmod_int)
  qed
qed

lemma SetBytes_Bytes: "SetBytes (Bytes x) = \<bar>x\<bar>"
  by (simp add: Bytes_def SetBytes_natBytes)

lemma length_natBytes: "n < 256 ^ k \<Longrightarrow> length (natBytes n) \<le> k"
proof (induction k arbitrary: n)
  case 0
  then show ?case by (simp add: natBytes.simps)
next
  case (Suc k)
  show ?case
  proof (cases "n = 0")
    case True
    then show ?thesis by (simp add: natBytes.simps)
  next
    case False
    from Suc.prems have "n div 256 < 256 ^ k"
      by (simp add: less_mult_imp_div_less mult.commute)
    from Suc.IH[OF this] False show ?thesis
      by (subst natBytes.simps) simp
  qed
qed

text \<open>
  The low-S step itself is right: the value that goes into \<^verbatim>\<open>fixLen\<close> is at most half
  the order, for every 32-byte \<open>S\<close> of the token.
\<close>

lemma normalized_S_low:
  assumes "length sigS = 32"
  shows "(if SetBytes sigS > secp256k1HalfN then \<bar>secp256k1N - SetBytes sigS\<bar> else SetBytes sigS)
           \<le> secp256k1HalfN"
proof -
  have "SetBytes sigS < 256 ^ 32" "0 \<le> SetBytes sigS"
    using SetBytes_bound[of sigS] assms by simp_all
  then show ?thesis
    unfolding secp256k1HalfN_def secp256k1N_def by (simp add: abs_le_iff)
qed

lemma length_normalized_S:
  assumes "length sigS \<le> 32"
  shows "length (if SetBytes sigS > secp256k1HalfN
                 then Bytes (secp256k1N - SetBytes sigS) else sigS) \<le> 32"
proof -
  have "SetBytes sigS < 256 ^ length sigS" "0 \<le> SetBytes sigS"
    using SetBytes_bound[of sigS] by simp_all
  moreover have "(256 :: int) ^ length sigS \<le> 256 ^ 32"
    using assms by (intro power_increasing) simp_all
  ultimately have "nat \<bar>secp256k1N - SetBytes sigS\<bar> < 256 ^ 32"
    by (simp add: secp256k1N_def)
  then have "length (Bytes (secp256k1N - SetBytes sigS)) \<le> 32"
    unfolding Bytes_def by (rule length_natBytes)
  with assms show ?thesis by simp
qed

text \<open>A Go string converted to bytes and back is the string.\<close>

lemma char_of_byte_of_char: "char_of_byte (byte_of_char c) = c"
proof -
  have "of_char c < (256 :: nat)"
    by simp
  then show ?thesis
    by (simp add: char_of_byte_def byte_of_char_def unat_of_nat)
qed

lemma string_of_bytes_of_string: "string_of_bytes (bytes_of_string str) = str"
  by (induction str) (simp_all add: string_of_bytes_def bytes_of_string_def char_of_byte_of_char)

text \<open>A signature that \<^verbatim>\<open>Sign\<close> returns without error: its shape.\<close>

lemma Sign_recover_Return:
  assumes "Sign_recover cr hash sg ecpt = Return (signature, None)"
  shows "length signature = 65 \<and> take 64 signature = normalizeRS sg
         \<and> (signature ! 64 = 27 \<or> signature ! 64 = 28)"
  using assms
  by (auto simp: Sign_recover_def Let_def length_normalizeRS nth_append
           split: if_splits prod.splits)

lemma Sign_Return:
  assumes "map_option fst (Sign p cr label keyid hash s) = Some (Return (signature, None))"
  shows "length signature = 65 \<and> (signature ! 64 = 27 \<or> signature ! 64 = 28)"
proof -
  from assms obtain sg ecpt where "Sign_recover cr hash sg ecpt = Return (signature, None)"
    by (auto simp: Sign_def Sign_found_def
             split: option.splits prod.splits if_splits outcome.splits)
  then show ?thesis using Sign_recover_Return by blast
qed

text \<open>
  \<^verbatim>\<open>recoverAddress\<close> takes a signature of \<^verbatim>\<open>Sign\<close> back to the one that \<^verbatim>\<open>Sign\<close> has
  checked: its \<^verbatim>\<open>Ecrecover\<close> gives the EC point of the signing key.
\<close>

lemma Sign_recover_cases:
  assumes "Sign_recover cr hash sg ecpt = Return (signature, None)"
  shows "(Ecrecover cr hash (normalizeRS sg @ [0]) = (ecpt, None)
            \<and> signature = normalizeRS sg @ [27])
         \<or> (Ecrecover cr hash (normalizeRS sg @ [1]) = (ecpt, None)
            \<and> signature = normalizeRS sg @ [28])"
  using assms
  by (auto simp: Sign_recover_def Let_def length_normalizeRS nth_append list_update_append
        split: if_splits prod.splits)

lemma recoverAddress_Sign_signature:
  assumes "Sign_recover cr hash sg ecpt = Return (signature, None)"
  shows "recoverAddress cr hash signature =
           (case UnmarshalPubkey cr ecpt of
              (pub, err) \<Rightarrow>
                if err \<noteq> None then Return (replicate 20 0, err)
                else (case pub of
                        None \<Rightarrow> Panic
                      | Some k \<Rightarrow> Return (PubkeyToAddress cr k, None)))"
proof -
  from Sign_recover_cases[OF assms] show ?thesis
  proof (elim disjE conjE)
    assume rec: "Ecrecover cr hash (normalizeRS sg @ [0]) = (ecpt, None)"
      and sig: "signature = normalizeRS sg @ [27]"
    have "index signature 64 = Some 27"
      by (simp add: sig index_def length_normalizeRS nth_append)
    moreover have "signature[64 := 27 - 27] = normalizeRS sg @ [0]"
      by (simp add: sig list_update_append length_normalizeRS)
    ultimately show ?thesis
      by (simp add: recoverAddress_def rec)
  next
    assume rec: "Ecrecover cr hash (normalizeRS sg @ [1]) = (ecpt, None)"
      and sig: "signature = normalizeRS sg @ [28]"
    have "index signature 64 = Some 28"
      by (simp add: sig index_def length_normalizeRS nth_append)
    moreover have "signature[64 := 28 - 27] = normalizeRS sg @ [1]"
      by (simp add: sig list_update_append length_normalizeRS)
    ultimately show ?thesis
      by (simp add: recoverAddress_def rec)
  qed
qed

lemma Verify_recovery_error:
  assumes "\<And>h sg. length sg = 65 \<Longrightarrow> 4 \<le> sg ! 64 \<Longrightarrow> snd (Ecrecover cr h sg) \<noteq> None"
    and "length signature = 65" and "4 \<le> signature ! 64"
  shows "map_option fst (Verify p cr label keyid hash signature s) \<noteq> Some (Return None)"
  using assms(1)[OF assms(2,3), of hash]
  by (auto simp: Verify_def split: option.splits prod.splits if_splits outcome.splits)

section \<open>Runs on the in-memory token\<close>

lemmas mem_defs = memP_def memCtx_def mem_FindObjectsInit_def mem_FindObjects_def
  mem_FindObjectsFinal_def mem_GetAttributeValue_def mem_DestroyObject_def mem_SignInit_def
  mem_Sign_def mem_GenerateKey_def mem_GenerateKeyPair_def logCall_def matches_def
  readAttribute_def emptyToken_def

lemmas attr_defs0 = NewAttribute_def NewMechanism_def keyTemplate_def CKO_PUBLIC_KEY_def
  CKO_PRIVATE_KEY_def CKO_SECRET_KEY_def CKK_EC_def CKK_RSA_def CKK_AES_def uintToBytes_def

lemmas attr_defs = attr_defs0 bytes_of_string_def byte_of_char_def string_of_bytes_def
  char_of_byte_def

lemmas prog_defs = Sign_def Sign_found_def GetPublicKey_def GetPublicKey_found_def ecPoint_def
  findAllMatching_def findAllMatching_loop.simps batchSize_def Verify_def errNoMatch_def
  errAmbiguous_def

lemma search_result:
  "map_option fst r = Some x \<Longrightarrow> r = Some (x, snd (the r))"
  by (cases r) auto

lemma toy_Unmarshal:
  "UnmarshalPubkey toyCrypto b = (Some (SetBytes (take 32 (drop 1 b)), SetBytes (drop 33 b)), None)"
  by (simp add: toyCrypto_def)

lemma toy_Ecrecover:
  "Ecrecover toyCrypto h sg =
     (if length h = 32 \<and> length sg = 65 \<and> sg ! 64 < 4 then (toyPoint, None)
      else ([], Some (ErrorsNew ''invalid signature recovery id'')))"
  by (simp add: toyCrypto_def)

lemma pair_ecPoint: "ecPoint_case (4 # 0x41 # toyPoint) = Some toyPoint"
  by code_simp

lemma Sign_recover_rawFull:
  "Sign_recover toyCrypto hash1 rawFull toyPoint = Return (rawFull @ [27], None)"
  by code_simp

text \<open>
  The search on the in-memory token returns: without faults it hands out the handles of
  the matching objects page by page, and \<^verbatim>\<open>findAllMatching\<close> collects them all and
  closes the search.
\<close>

lemma mem_loop:
  assumes "tokSearch s = Some hs" and "map_of (tokFaults s) FindObjectsCall = None"
  shows "\<exists>s'. findAllMatching_loop memP acc s = Some ((acc @ hs, None), s')
           \<and> tokSearch s' = Some [] \<and> tokObjects s' = tokObjects s
           \<and> tokFaults s' = tokFaults s"
  using assms
proof (induction "length hs" arbitrary: hs s acc rule: less_induct)
  case less
  show ?case
  proof (cases "hs = []")
    case True
    with less.prems show ?thesis
      by (subst findAllMatching_loop.simps) (simp add: mem_defs batchSize_def)
  next
    case False
    let ?s1 = "(logCall FindObjectsCall s)\<lparr>tokSearch := Some (drop 20 hs)\<rparr>"
    have step: "findAllMatching_loop memP acc s = findAllMatching_loop memP (acc @ take 20 hs) ?s1"
      using less.prems False
      by (subst findAllMatching_loop.simps) (simp add: mem_defs batchSize_def)
    have "length (drop 20 hs) < length hs" using False by simp
    from less.hyps[OF this, of ?s1 "acc @ take 20 hs"] less.prems
    obtain s' where "findAllMatching_loop memP (acc @ take 20 hs) ?s1
          = Some (((acc @ take 20 hs) @ drop 20 hs, None), s')"
      and "tokSearch s' = Some []" and "tokObjects s' = tokObjects ?s1"
      and "tokFaults s' = tokFaults ?s1"
      by (auto simp: logCall_def)
    with step show ?thesis by (auto simp: logCall_def)
  qed
qed

lemma mem_findAllMatching:
  assumes "tokSearch s = None" and "tokFaults s = []"
  shows "\<exists>s'. findAllMatching memP template s
             = Some ((map fst (filter (\<lambda>ob. matches template (snd ob)) (tokObjects s)), None), s')
           \<and> tokSearch s' = None \<and> tokObjects s' = tokObjects s \<and> tokFaults s' = []"
proof -
  let ?hs = "map fst (filter (\<lambda>ob. matches template (snd ob)) (tokObjects s))"
  let ?s1 = "(logCall FindObjectsInitCall s)\<lparr>tokSearch := Some ?hs\<rparr>"
  have init: "ctx_FindObjectsInit (ctx memP) (session memP) template s = (None, ?s1)"
    using assms by (simp add: memP_def memCtx_def mem_FindObjectsInit_def logCall_def Let_def)
  have "tokSearch ?s1 = Some ?hs" "map_of (tokFaults ?s1) FindObjectsCall = None"
    using assms by (simp_all add: logCall_def)
  from mem_loop[OF this, of "[]"] obtain s2 where
    loop: "findAllMatching_loop memP [] ?s1 = Some (([] @ ?hs, None), s2)"
    and s2: "tokSearch s2 = Some []" "tokObjects s2 = tokObjects ?s1" "tokFaults s2 = tokFaults ?s1"
    by blast
  have final: "ctx_FindObjectsFinal (ctx memP) (session memP) s2
      = (None, (logCall FindObjectsFinalCall s2)\<lparr>tokSearch := None\<rparr>)"
    using s2 assms by (simp add: memP_def memCtx_def mem_FindObjectsFinal_def logCall_def Let_def)
  show ?thesis
    using init loop final s2 assms
    by (simp add: findAllMatching_def logCall_def)
qed

lemma normalizeRS_rawShortS:
  "normalizeRS rawShortS = replicate 32 0xAB @ [0x80] @ replicate 29 0x00 @ [0x01, 0x00]"
  by code_simp

lemma Sign_pairToken:
  "map_option fst (Sign memP toyCrypto ''clitest'' [] hash1 (pairToken raw))
     = Some (Sign_recover toyCrypto hash1 raw toyPoint)"
  by (simp add: prog_defs mem_defs attr_defs pairToken_def pairObjects_def pair_ecPoint
       toy_Unmarshal split: prod.splits)

lemma Verify_pairToken:
  "map_option fst (Verify memP toyCrypto ''clitest'' [] hash1 signature (pairToken raw))
     = Some (Return (case Ecrecover toyCrypto hash1 signature of
                       (recPub, err) \<Rightarrow>
                         if err \<noteq> None then err
                         else if recPub = toyPoint then None
                         else Some (ErrorsNew ''Not verified'')))"
  by (simp add: prog_defs mem_defs attr_defs pairToken_def pairObjects_def pair_ecPoint
       toy_Unmarshal split: prod.splits)


section \<open>The claims\<close>

subsection \<open>C1: signing and then verifying\<close>

text \<open>
  C1 says that \<^verbatim>\<open>Verify\<close> accepts the 65-byte signature that \<^verbatim>\<open>Sign\<close> returned for the
  same key and hash. \<^verbatim>\<open>Sign\<close> calls \<^verbatim>\<open>Ecrecover\<close> with the recovery id 0 or 1 in byte 64
  and adds 27 to that byte before it returns; \<^verbatim>\<open>Verify\<close> hands the signature to
  \<^verbatim>\<open>Ecrecover\<close> as it is, with 27 or 28 in byte 64. (\<^verbatim>\<open>recoverAddress\<close> in the same file
  subtracts the 27 first and so recovers the point that \<^verbatim>\<open>Sign\<close> has checked:
  \<open>recoverAddress_Sign_signature\<close>.) With a recovery function that refuses a recovery
  id of 4 or more, as go-ethereum's does, \<^verbatim>\<open>Verify\<close> therefore never accepts a signature
  that \<^verbatim>\<open>Sign\<close> produced, in whatever state the token is. What a changed byte of the
  signature or of the hash does to the recovered point is a matter of the elliptic-curve
  library and is left open.
\<close>

theorem Verify_rejects_Sign_signature:
  assumes "\<And>h sg. length sg = 65 \<Longrightarrow> 4 \<le> sg ! 64 \<Longrightarrow> snd (Ecrecover cr h sg) \<noteq> None"
    and "map_option fst (Sign p cr label keyid hash s) = Some (Return (signature, None))"
  shows "map_option fst (Verify p cr label keyid hash signature s') \<noteq> Some (Return None)"
proof -
  from Sign_Return[OF assms(2)]
  have len: "length signature = 65" and v: "signature ! 64 = 27 \<or> signature ! 64 = 28"
    by simp_all
  from v have "4 \<le> signature ! 64" by auto
  with assms(1) len show ?thesis by (rule Verify_recovery_error)
qed

text \<open>
  On the token with the key pair \<^verbatim>\<open>clitest\<close>: \<^verbatim>\<open>Sign\<close> returns \<open>R \<parallel> S \<parallel> 27\<close>, \<^verbatim>\<open>Verify\<close>
  answers it with the recovery error, and accepts the same \<open>R \<parallel> S\<close> with the recovery
  id 0.
\<close>

theorem Verify_rejects_Sign_signature_witness:
  "map_option fst (Sign memP toyCrypto ''clitest'' [] hash1 (pairToken rawFull))
     = Some (Return (rawFull @ [27], None))
   \<and> map_option fst (Verify memP toyCrypto ''clitest'' [] hash1 (rawFull @ [27]) (pairToken rawFull))
     \<noteq> Some (Return None)
   \<and> map_option fst (Verify memP toyCrypto ''clitest'' [] hash1 (rawFull @ [27]) (pairToken rawFull))
     = Some (Return (Some (ErrorsNew ''invalid signature recovery id'')))
   \<and> map_option fst (Verify memP toyCrypto ''clitest'' [] hash1 (rawFull @ [0]) (pairToken rawFull))
     = Some (Return None)"
proof -
  have toy: "\<And>h sg. length sg = 65 \<Longrightarrow> 4 \<le> sg ! 64 \<Longrightarrow> snd (Ecrecover toyCrypto h sg) \<noteq> None"
    by (auto simp: toy_Ecrecover not_less)
  have rec27: "Ecrecover toyCrypto hash1 (rawFull @ [27])
      = ([], Some (ErrorsNew ''invalid signature recovery id''))"
    by (simp add: toy_Ecrecover rawFull_def hash1_def nth_append)
  have rec0: "Ecrecover toyCrypto hash1 (rawFull @ [0]) = (toyPoint, None)"
    by (simp add: toy_Ecrecover rawFull_def hash1_def nth_append)
  have sign: "map_option fst (Sign memP toyCrypto ''clitest'' [] hash1 (pairToken rawFull))
      = Some (Return (rawFull @ [27], None))"
    by (simp add: Sign_pairToken Sign_recover_rawFull)
  have rej: "map_option fst (Verify memP toyCrypto ''clitest'' [] hash1 (rawFull @ [27]) (pairToken rawFull))
      \<noteq> Some (Return None)"
    using toy sign by (rule Verify_rejects_Sign_signature)
  have res27: "map_option fst
      (Verify memP toyCrypto ''clitest'' [] hash1 (rawFull @ [27]) (pairToken rawFull))
      = Some (Return (Some (ErrorsNew ''invalid signature recovery id'')))"
    by (simp add: Verify_pairToken rec27)
  have res0: "map_option fst
      (Verify memP toyCrypto ''clitest'' [] hash1 (rawFull @ [0]) (pairToken rawFull))
      = Some (Return None)"
    by (simp add: Verify_pairToken rec0)
  show ?thesis using sign rej res27 res0 by blast
qed

subsection \<open>C2: the canonical form of a returned signature\<close>

text \<open>
  C2 says that every signature \<^verbatim>\<open>Sign\<close> returns has 65 bytes, an \<open>S\<close> component (bytes
  32 to 63) of at most half the curve order, and 27 or 28 as its last byte. The length
  and the last byte hold for every token and every elliptic-curve library
  (\<open>Sign_Return\<close>), and the value that goes into \<^verbatim>\<open>fixLen\<close> is at most half the order
  (\<open>normalized_S_low\<close>). \<^verbatim>\<open>fixLen\<close> then pads that value on the right, so the \<open>S\<close>
  component is at most half the order when the value fills its 32 bytes, as shown below.
  When it is shorter, \<^verbatim>\<open>Sign\<close> returns the signature only if \<^verbatim>\<open>Ecrecover\<close> gives the
  stored EC point for the shifted \<open>S\<close>; whether that can happen is a matter of the
  elliptic-curve arithmetic of the library, which is outside the file, and the bound on
  \<open>S\<close> is left open there.
\<close>

lemma Sign_recover_low_S:
  assumes "Sign_recover cr hash sg ecpt = Return (signature, None)"
    and "length (skipZeros
           (if SetBytes (take 32 (drop 32 sg)) > secp256k1HalfN
            then Bytes (secp256k1N - SetBytes (take 32 (drop 32 sg)))
            else take 32 (drop 32 sg))) = 32"
  shows "SetBytes (take 32 (drop 32 signature)) \<le> secp256k1HalfN"
proof -
  let ?sigS = "take 32 (drop 32 sg)"
  let ?sigS' = "if SetBytes ?sigS > secp256k1HalfN
                then Bytes (secp256k1N - SetBytes ?sigS) else ?sigS"
  from assms(1) have "\<not> length sg < 64"
    by (auto simp: Sign_recover_def split: if_splits)
  then have lenS: "length ?sigS = 32" by simp
  then have len: "length ?sigS' \<le> 32"
    using length_normalized_S[of ?sigS] by simp
  have "take 32 (drop 32 signature) = drop 32 (take 64 signature)"
    by (simp add: drop_take)
  also have "\<dots> = drop 32 (normalizeRS sg)"
    using Sign_recover_Return[OF assms(1)] by simp
  also have "\<dots> = fixLen ?sigS'"
    by (simp add: normalizeRS_def Let_def length_fixLen)
  finally have "SetBytes (take 32 (drop 32 signature)) = SetBytes ?sigS'"
    using SetBytes_fixLen[OF len] assms(2) by simp
  also have "\<dots> = (if SetBytes ?sigS > secp256k1HalfN
                      then \<bar>secp256k1N - SetBytes ?sigS\<bar> else SetBytes ?sigS)"
    by (simp add: SetBytes_Bytes)
  also have "\<dots> \<le> secp256k1HalfN"
    using lenS by (rule normalized_S_low)
  finally show ?thesis .
qed

subsection \<open>C3: the normalisation of R and S\<close>

text \<open>
  C3 says that \<open>R\<close> is never changed and that \<open>R\<close> and the low \<open>S\<close> appear in the output as
  their values padded on the left to 32 bytes. \<^verbatim>\<open>fixLen\<close> pads on the right: for every
  raw 64-byte output of the token, the \<open>R\<close> component of \<^verbatim>\<open>sigRS\<close> is the value of the raw
  \<open>R\<close> times 256 for each leading zero byte that was stripped, and the \<open>S\<close> component is
  the value of the low \<open>S\<close> (\<open>S\<close>, or the bytes of \<open>N - S\<close> when \<open>S\<close> is above half the
  order) times 256 for each byte it is short of 32.
\<close>

theorem normalizeRS_shifts:
  assumes "length sg = 64"
  shows "SetBytes (take 32 (normalizeRS sg))
           = SetBytes (take 32 sg) * 256 ^ (32 - length (skipZeros (take 32 sg)))
         \<and> SetBytes (drop 32 (normalizeRS sg))
           = (let sigS = take 32 (drop 32 sg);
                  sigS' = (if SetBytes sigS > secp256k1HalfN
                           then Bytes (secp256k1N - SetBytes sigS) else sigS)
              in SetBytes sigS' * 256 ^ (32 - length (skipZeros sigS')))"
proof -
  let ?sigS = "take 32 (drop 32 sg)"
  let ?sigS' = "if SetBytes ?sigS > secp256k1HalfN
                then Bytes (secp256k1N - SetBytes ?sigS) else ?sigS"
  have "take 32 (normalizeRS sg) = fixLen (take 32 sg)"
    by (simp add: normalizeRS_def Let_def length_fixLen)
  moreover have "length (take 32 sg) \<le> 32" by simp
  ultimately have R: "SetBytes (take 32 (normalizeRS sg))
      = SetBytes (take 32 sg) * 256 ^ (32 - length (skipZeros (take 32 sg)))"
    by (simp only: SetBytes_fixLen)
  have "length ?sigS \<le> 32" by simp
  then have len: "length ?sigS' \<le> 32" by (rule length_normalized_S)
  have "drop 32 (normalizeRS sg) = fixLen ?sigS'"
    by (simp add: normalizeRS_def Let_def length_fixLen)
  then have S: "SetBytes (drop 32 (normalizeRS sg))
      = SetBytes ?sigS' * 256 ^ (32 - length (skipZeros ?sigS'))"
    using SetBytes_fixLen[OF len] by simp
  from R S show ?thesis by (simp add: Let_def)
qed

text \<open>A raw \<open>R = 0x00AB\<dots>AB\<close> comes out as \<open>0xAB\<dots>AB00\<close>, 256 times its value.\<close>

theorem normalizeRS_shifts_witness:
  "length rawShortR = 64
   \<and> take 32 rawShortR = [0x00] @ replicate 31 0xAB
   \<and> take 32 (normalizeRS rawShortR) = replicate 31 0xAB @ [0x00]
   \<and> SetBytes (take 32 (normalizeRS rawShortR)) = SetBytes (take 32 rawShortR) * 256
   \<and> SetBytes (take 32 (normalizeRS rawShortR)) \<noteq> SetBytes (take 32 rawShortR)"
proof -
  have len: "length rawShortR = 64" by code_simp
  have k: "32 - length (skipZeros (take 32 rawShortR)) = 1" by code_simp
  have shift: "SetBytes (take 32 (normalizeRS rawShortR)) = SetBytes (take 32 rawShortR) * 256"
    using normalizeRS_shifts[OF len] by (simp add: k)
  have pos: "SetBytes (take 32 rawShortR) \<noteq> 0" by code_simp
  have "take 32 rawShortR = [0x00] @ replicate 31 0xAB" by code_simp
  moreover have "take 32 (normalizeRS rawShortR) = replicate 31 0xAB @ [0x00]" by code_simp
  ultimately show ?thesis using len shift pos by simp
qed


subsection \<open>C4: resolving exactly one key\<close>

text \<open>
  C4 says that the resolution of a key, as \<^verbatim>\<open>GetPublicKey\<close> and \<^verbatim>\<open>Sign\<close> do it, fails with
  the no-matching-key error when the search finds no object, fails with the
  more-than-one-key error when it finds two or more, and goes on with the single handle
  when it finds exactly one. The search results are those of \<^verbatim>\<open>findAllMatching\<close> for the
  template of the public and of the private key.
\<close>

theorem unique_key_resolution:
  assumes "findAllMatching p (keyTemplate CKO_PUBLIC_KEY label keyid) s = Some ((pubs, None), s1)"
    and "findAllMatching p (keyTemplate CKO_PRIVATE_KEY label keyid) s = Some ((privs, None), s2)"
  shows "GetPublicKey p cr label keyid s =
           (if length pubs = 0 then Some (Return (None, [], Some errNoMatch), s1)
            else if 2 \<le> length pubs then Some (Return (None, [], Some errAmbiguous), s1)
            else GetPublicKey_found p cr (hd pubs) s1)
         \<and> Sign p cr label keyid hash s =
           (if length privs = 0 then Some (Return ([], Some errNoMatch), s2)
            else if 2 \<le> length privs then Some (Return ([], Some errAmbiguous), s2)
            else Sign_found p cr label keyid hash (hd privs) s2)"
proof -
  have hd0: "xs \<noteq> [] \<Longrightarrow> xs ! 0 = hd xs" for xs :: "ObjectHandle list"
    by (cases xs) simp_all
  have "GetPublicKey p cr label keyid s =
           (if length pubs = 0 then Some (Return (None, [], Some errNoMatch), s1)
            else if 2 \<le> length pubs then Some (Return (None, [], Some errAmbiguous), s1)
            else GetPublicKey_found p cr (hd pubs) s1)"
    using hd0[of pubs] by (auto simp: GetPublicKey_def assms(1))
  moreover have "Sign p cr label keyid hash s =
           (if length privs = 0 then Some (Return ([], Some errNoMatch), s2)
            else if 2 \<le> length privs then Some (Return ([], Some errAmbiguous), s2)
            else Sign_found p cr label keyid hash (hd privs) s2)"
    using hd0[of privs] by (auto simp: Sign_def assms(2))
  ultimately show ?thesis by blast
qed

lemma pairToken_search_public:
  "map_option fst (findAllMatching memP (keyTemplate CKO_PUBLIC_KEY ''clitest'' []) (pairToken raw))
     = Some ([1], None)"
  by (simp add: prog_defs mem_defs attr_defs pairToken_def pairObjects_def)

lemma pairToken_search_private:
  "map_option fst (findAllMatching memP (keyTemplate CKO_PRIVATE_KEY ''clitest'' []) (pairToken raw))
     = Some ([2], None)"
  by (simp add: prog_defs mem_defs attr_defs pairToken_def pairObjects_def)

lemma pairToken_search_absent:
  "map_option fst (findAllMatching memP (keyTemplate cls ''absent'' []) (pairToken raw))
     = Some ([], None)"
  by (simp add: prog_defs mem_defs attr_defs pairToken_def pairObjects_def)

lemma twoPairToken_search_public:
  "map_option fst (findAllMatching memP (keyTemplate CKO_PUBLIC_KEY ''clitest'' []) twoPairToken)
     = Some ([1, 3], None)"
  by (simp add: prog_defs mem_defs attr_defs twoPairToken_def pairObjects_def)

lemma twoPairToken_search_private:
  "map_option fst (findAllMatching memP (keyTemplate CKO_PRIVATE_KEY ''clitest'' []) twoPairToken)
     = Some ([2, 4], None)"
  by (simp add: prog_defs mem_defs attr_defs twoPairToken_def pairObjects_def)

text \<open>
  On the in-memory token: one key pair under the label, no key under another label,
  two key pairs under the label.
\<close>

theorem unique_key_resolution_witness:
  "map_option fst (GetPublicKey memP toyCrypto ''clitest'' [] (pairToken rawFull))
     = map_option fst (GetPublicKey_found memP toyCrypto 1
         (snd (the (findAllMatching memP (keyTemplate CKO_PUBLIC_KEY ''clitest'' []) (pairToken rawFull)))))
   \<and> map_option fst (Sign memP toyCrypto ''clitest'' [] hash1 (pairToken rawFull))
     = map_option fst (Sign_found memP toyCrypto ''clitest'' [] hash1 2
         (snd (the (findAllMatching memP (keyTemplate CKO_PRIVATE_KEY ''clitest'' []) (pairToken rawFull)))))
   \<and> map_option fst (GetPublicKey memP toyCrypto ''absent'' [] (pairToken rawFull))
     = Some (Return (None, [], Some errNoMatch))
   \<and> map_option fst (Sign memP toyCrypto ''absent'' [] hash1 (pairToken rawFull))
     = Some (Return ([], Some errNoMatch))
   \<and> map_option fst (GetPublicKey memP toyCrypto ''clitest'' [] twoPairToken)
     = Some (Return (None, [], Some errAmbiguous))
   \<and> map_option fst (Sign memP toyCrypto ''clitest'' [] hash1 twoPairToken)
     = Some (Return ([], Some errAmbiguous))"
proof -
  note one = unique_key_resolution[
      OF search_result[OF pairToken_search_public[of rawFull]]
         search_result[OF pairToken_search_private[of rawFull]], of toyCrypto hash1]
  note none = unique_key_resolution[
      OF search_result[OF pairToken_search_absent[of CKO_PUBLIC_KEY rawFull]]
         search_result[OF pairToken_search_absent[of CKO_PRIVATE_KEY rawFull]], of toyCrypto hash1]
  note two = unique_key_resolution[
      OF search_result[OF twoPairToken_search_public]
         search_result[OF twoPairToken_search_private], of toyCrypto hash1]
  show ?thesis
    using one none two by simp
qed

text \<open>
  On the in-memory token with no open search and no faults the search returns, for every
  population: \<^verbatim>\<open>GetPublicKey\<close> and \<^verbatim>\<open>Sign\<close> return the no-matching-key error when no
  object matches their template and the more-than-one-key error when two or more do.
\<close>

lemma resolution_in_memory:
  assumes "tokSearch s = None" and "tokFaults s = []"
  shows "map_option fst (GetPublicKey memP cr label keyid s) =
           (let pubs = map fst (filter
                  (\<lambda>ob. matches (keyTemplate CKO_PUBLIC_KEY label keyid) (snd ob)) (tokObjects s))
            in if pubs = [] then Some (Return (None, [], Some errNoMatch))
               else if 2 \<le> length pubs then Some (Return (None, [], Some errAmbiguous))
               else map_option fst (GetPublicKey memP cr label keyid s))
         \<and> map_option fst (Sign memP cr label keyid hash s) =
           (let privs = map fst (filter
                  (\<lambda>ob. matches (keyTemplate CKO_PRIVATE_KEY label keyid) (snd ob)) (tokObjects s))
            in if privs = [] then Some (Return ([], Some errNoMatch))
               else if 2 \<le> length privs then Some (Return ([], Some errAmbiguous))
               else map_option fst (Sign memP cr label keyid hash s))"
proof -
  from mem_findAllMatching[OF assms, of "keyTemplate CKO_PUBLIC_KEY label keyid"]
  obtain s1 where pub: "findAllMatching memP (keyTemplate CKO_PUBLIC_KEY label keyid) s
      = Some ((map fst (filter
           (\<lambda>ob. matches (keyTemplate CKO_PUBLIC_KEY label keyid) (snd ob)) (tokObjects s)), None), s1)"
    by blast
  from mem_findAllMatching[OF assms, of "keyTemplate CKO_PRIVATE_KEY label keyid"]
  obtain s2 where priv: "findAllMatching memP (keyTemplate CKO_PRIVATE_KEY label keyid) s
      = Some ((map fst (filter
           (\<lambda>ob. matches (keyTemplate CKO_PRIVATE_KEY label keyid) (snd ob)) (tokObjects s)), None), s2)"
    by blast
  show ?thesis
    by (simp add: GetPublicKey_def Sign_def pub priv Let_def)
qed

subsection \<open>C5 and C6: the key sizes of GenerateKeyPair\<close>

text \<open>
  C5 as it is stated fails for EC keys: the size 128 is not in the documented table, and
  \<^verbatim>\<open>GenerateKeyPair\<close> with key type \<^verbatim>\<open>EC\<close>, algorithm \<^verbatim>\<open>S256\<close> and key size 128 goes on to
  \<^verbatim>\<open>GenerateECKey\<close>, which searches the token and generates the key pair.
\<close>

theorem GenerateKeyPair_EC_128_counterexample:
  "128 \<notin> set (documentedSizes ''EC'')
   \<and> map_option fst (GenerateKeyPair memP ''clitest'' [] ''S256'' ''EC'' 128 emptyToken)
     = Some (Return None)
   \<and> map_option (tokCalls \<circ> snd) (GenerateKeyPair memP ''clitest'' [] ''S256'' ''EC'' 128 emptyToken)
     = Some [FindObjectsInitCall, FindObjectsCall, FindObjectsFinalCall, GenerateKeyPairCall]
   \<and> map_option (map fst \<circ> tokObjects \<circ> snd)
        (GenerateKeyPair memP ''clitest'' [] ''S256'' ''EC'' 128 emptyToken)
     = Some [1, 2]"
  by (simp add: documentedSizes_def GenerateKeyPair_def validECSize_def GenerateECKey_def
        prog_defs mem_defs attr_defs marshaledOID_def)

text \<open>
  C5, amended: for each of the key types RSA, AES and EC, \<^verbatim>\<open>GenerateKeyPair\<close> goes on to
  the key generation of that type exactly when the key size is in the table of the code
  (RSA 1024/2048/3072/4096, AES 128/192/256, EC 128/192/256) and, for EC, the algorithm
  is \<^verbatim>\<open>S256\<close>; otherwise it returns the invalid-key-size error of that type and the
  token state it was given, whatever the token.
\<close>

theorem GenerateKeyPair_valid_sizes:
  "GenerateKeyPair p label keyid algorithm ''RSA'' keysize s =
     (if keysize \<in> {1024, 2048, 3072, 4096}
      then (case GenerateRSAKey p label keysize s of (err, s1) \<Rightarrow> Some (Return err, s1))
      else Some (Return (Some (Errorf ''Invalid RSA key size: %d'' (ArgInt keysize))), s))
   \<and> GenerateKeyPair p label keyid algorithm ''AES'' keysize s =
     (if keysize \<in> {128, 192, 256}
      then (case GenerateAESKey p label keysize s of (err, s1) \<Rightarrow> Some (Return err, s1))
      else Some (Return (Some (Errorf ''Invalid AES key size: %d'' (ArgInt keysize))), s))
   \<and> GenerateKeyPair p label keyid algorithm ''EC'' keysize s =
     (if keysize \<in> {128, 192, 256} \<and> algorithm = ''S256''
      then GenerateECKey p label keyid s
      else Some (Return (Some (Errorf ''Invalid EC key size: %d'' (ArgInt keysize))), s))"
  by (simp add: GenerateKeyPair_def isValidSize_set validRSASize_def validAESSize_def
        validECSize_def)

text \<open>
  C6 says that \<^verbatim>\<open>GenerateKeyPair\<close> with key type \<^verbatim>\<open>EC\<close> and an algorithm other than
  \<^verbatim>\<open>S256\<close> fails with the invalid-key-size error for every key size and asks the token
  for nothing: for every implementation of the token, the state comes back as it was.
\<close>

theorem GenerateKeyPair_EC_algorithm:
  assumes "algorithm \<noteq> ''S256''"
  shows "GenerateKeyPair p label keyid algorithm ''EC'' keysize s
           = Some (Return (Some (Errorf ''Invalid EC key size: %d'' (ArgInt keysize))), s)"
  using assms by (simp add: GenerateKeyPair_def)

theorem GenerateKeyPair_EC_algorithm_witness:
  "GenerateKeyPair memP ''clitest'' [] ''P256'' ''EC'' 256 emptyToken
     = Some (Return (Some (Errorf ''Invalid EC key size: %d'' (ArgInt 256))), emptyToken)
   \<and> tokCalls emptyToken = []"
proof -
  have "''P256'' \<noteq> ''S256''" by simp
  then show ?thesis
    using GenerateKeyPair_EC_algorithm[of "''P256''" memP "''clitest''" "[]" 256 emptyToken]
    by (simp add: emptyToken_def)
qed


subsection \<open>C7: closing the search context\<close>

text \<open>
  C7 says that every search opened with \<^verbatim>\<open>FindObjectsInit\<close> is closed with
  \<^verbatim>\<open>FindObjectsFinal\<close> before the operation returns, also when \<^verbatim>\<open>FindObjects\<close> fails
  and when the match count is not one. Both early returns skip the call: when the first
  \<^verbatim>\<open>FindObjects\<close> of \<^verbatim>\<open>findAllMatching\<close> fails, and when \<^verbatim>\<open>findKeyByLabel\<close> does not get
  exactly one handle, the function returns with the token in the state that
  \<^verbatim>\<open>FindObjects\<close> left, for every implementation of the token.
\<close>

theorem search_context_left_open:
  assumes "ctx_FindObjectsInit (ctx p) (session p) template s = (None, s1)"
    and "ctx_FindObjects (ctx p) (session p) batchSize s1 = ((res, hasMore, Some e), s2)"
    and "ctx_FindObjectsInit (ctx p) (session p) [NewAttribute CKA_LABEL (GoString label)] t
           = (None, t1)"
    and "ctx_FindObjects (ctx p) (session p) 1 t1 = ((objs, hasMore', err), t2)"
    and "length objs \<noteq> 1"
  shows "findAllMatching p template s
           = Some (([], Some (WithMessage e ''failed to search'')), s2)
         \<and> findKeyByLabel p label t
           = ((0, Some (Errorf (''no key with label '%s'' @ [CHR 0x27]) (ArgString label))), t2)"
proof -
  have "findAllMatching_loop p [] s1
          = Some (([], Some (WithMessage e ''failed to search'')), s2)"
    by (subst findAllMatching_loop.simps) (simp add: assms(2))
  then have "findAllMatching p template s
               = Some (([], Some (WithMessage e ''failed to search'')), s2)"
    by (simp add: findAllMatching_def assms(1))
  moreover have "findKeyByLabel p label t
      = ((0, Some (Errorf (''no key with label '%s'' @ [CHR 0x27]) (ArgString label))), t2)"
    using assms(3,4,5) by (simp add: findKeyByLabel_def)
  ultimately show ?thesis by blast
qed

text \<open>
  On the in-memory token: after \<^verbatim>\<open>findAllMatching\<close> with a failing \<^verbatim>\<open>FindObjects\<close>, and
  after \<^verbatim>\<open>findKeyByLabel\<close> for a label no object has, the search context is still open
  and the token has seen \<^verbatim>\<open>FindObjectsInit\<close> and \<^verbatim>\<open>FindObjects\<close> only.
\<close>

theorem search_context_left_open_witness:
  "map_option fst (findAllMatching memP [] searchFaultToken)
     = Some ([], Some (WithMessage (P11Error 5) ''failed to search''))
   \<and> map_option (tokSearch \<circ> snd) (findAllMatching memP [] searchFaultToken) = Some (Some [])
   \<and> map_option (tokCalls \<circ> snd) (findAllMatching memP [] searchFaultToken)
     = Some [FindObjectsInitCall, FindObjectsCall]
   \<and> fst (findKeyByLabel memP ''nokey'' emptyToken)
     = (0, Some (Errorf (''no key with label '%s'' @ [CHR 0x27]) (ArgString ''nokey'')))
   \<and> tokSearch (snd (findKeyByLabel memP ''nokey'' emptyToken)) = Some []
   \<and> tokCalls (snd (findKeyByLabel memP ''nokey'' emptyToken))
     = [FindObjectsInitCall, FindObjectsCall]"
proof -
  define s1 where "s1 = snd (mem_FindObjectsInit 1 [] searchFaultToken)"
  define s2 where "s2 = snd (mem_FindObjects 1 batchSize s1)"
  define t1 where
    "t1 = snd (mem_FindObjectsInit 1 [NewAttribute CKA_LABEL (GoString ''nokey'')] emptyToken)"
  define t2 where "t2 = snd (mem_FindObjects 1 1 t1)"
  have a1: "ctx_FindObjectsInit (ctx memP) (session memP) [] searchFaultToken = (None, s1)"
    by (simp add: s1_def mem_defs searchFaultToken_def)
  have a2: "ctx_FindObjects (ctx memP) (session memP) batchSize s1
              = (([], False, Some (P11Error 5)), s2)"
    by (simp add: s2_def s1_def mem_defs searchFaultToken_def)
  have a3: "ctx_FindObjectsInit (ctx memP) (session memP)
              [NewAttribute CKA_LABEL (GoString ''nokey'')] emptyToken = (None, t1)"
    by (simp add: t1_def mem_defs)
  have a4: "ctx_FindObjects (ctx memP) (session memP) 1 t1 = (([], False, None), t2)"
    by (simp add: t2_def t1_def mem_defs)
  have a5: "length ([] :: ObjectHandle list) \<noteq> 1" by simp
  have s2: "tokSearch s2 = Some [] \<and> tokCalls s2 = [FindObjectsInitCall, FindObjectsCall]"
    by (simp add: s2_def s1_def mem_defs searchFaultToken_def)
  have t2: "tokSearch t2 = Some [] \<and> tokCalls t2 = [FindObjectsInitCall, FindObjectsCall]"
    by (simp add: t2_def t1_def mem_defs)
  from search_context_left_open[OF a1 a2 a3 a4 a5] s2 t2 show ?thesis
    by simp
qed

subsection \<open>C8: DeleteAllExcept\<close>

text \<open>
  C8 says that \<^verbatim>\<open>DeleteAllExcept\<close> destroys every object whose label is not to be kept,
  among them the objects whose label cannot be read for want of the attribute, and keeps
  the others, for every population of the token. The loop assigns the result of
  \<^verbatim>\<open>GetAttributeValue\<close> to \<^verbatim>\<open>template\<close>. When the read of an object's label fails for want
  of the attribute and the token hands back a nil slice with the error, the object is
  destroyed, the label of the next object is read with that empty template, and
  \<^verbatim>\<open>template[0]\<close> panics, whatever the labels to keep: the next object and all after it
  stay on the token.
\<close>

theorem DeleteAllExcept_panics_after_unlabelled:
  assumes "findAllMatching p [] s = Some ((o1 # o2 # rest, None), s1)"
    and "ctx_GetAttributeValue (ctx p) (session p) o1 [NewAttribute CKA_LABEL GoNil] s1
           = (([], Some (P11Error CKR_ATTRIBUTE_TYPE_INVALID)), s2)"
    and "ctx_DestroyObject (ctx p) (session p) o1 s2 = (None, s3)"
    and "ctx_GetAttributeValue (ctx p) (session p) o2 [] s3 = (([], None), s4)"
  shows "DeleteAllExcept p keyLabels s = Some (Panic, s4)"
proof (cases keyLabels)
  case Nil
  then show ?thesis
    by (simp add: DeleteAllExcept_def assms index_def)
next
  case (Cons l ls)
  then show ?thesis
    by (simp add: DeleteAllExcept_def assms index_def)
qed

lemma mixedToken_search:
  "map_option fst (findAllMatching memP [] mixedToken) = Some ([1, 2], None)"
  by (simp add: prog_defs mem_defs attr_defs mixedToken_def)

text \<open>
  On the token with an unlabelled object before one labelled \<^verbatim>\<open>old\<close>:
  \<^verbatim>\<open>DeleteAllExcept(["keep"])\<close> destroys the first, panics at the second and leaves it on
  the token. With labels on both objects it destroys the one that is not to be kept and
  returns.
\<close>

theorem DeleteAllExcept_panics_after_unlabelled_witness:
  "map_option fst (DeleteAllExcept memP [''keep''] mixedToken) = Some Panic
   \<and> map_option (map fst \<circ> tokObjects \<circ> snd) (DeleteAllExcept memP [''keep''] mixedToken)
     = Some [2]
   \<and> map_option (tokCalls \<circ> snd) (DeleteAllExcept memP [''keep''] mixedToken)
     = Some [FindObjectsInitCall, FindObjectsCall, FindObjectsCall, FindObjectsFinalCall,
             GetAttributeValueCall 1, DestroyObjectCall 1, GetAttributeValueCall 2]"
proof -
  define s1 where "s1 = snd (the (findAllMatching memP [] mixedToken))"
  define s2 where "s2 = snd (mem_GetAttributeValue 1 1 [NewAttribute CKA_LABEL GoNil] s1)"
  define s3 where "s3 = snd (mem_DestroyObject 1 1 s2)"
  define s4 where "s4 = snd (mem_GetAttributeValue 1 2 [] s3)"
  note defs = prog_defs mem_defs attr_defs mixedToken_def CKR_ATTRIBUTE_TYPE_INVALID_def
  have a1: "findAllMatching memP [] mixedToken = Some ((1 # 2 # [], None), s1)"
    unfolding s1_def by (rule search_result[OF mixedToken_search])
  have a2: "ctx_GetAttributeValue (ctx memP) (session memP) 1 [NewAttribute CKA_LABEL GoNil] s1
              = (([], Some (P11Error CKR_ATTRIBUTE_TYPE_INVALID)), s2)"
    by (simp add: s2_def s1_def defs)
  have a3: "ctx_DestroyObject (ctx memP) (session memP) 1 s2 = (None, s3)"
    by (simp add: s3_def s2_def s1_def defs)
  have a4: "ctx_GetAttributeValue (ctx memP) (session memP) 2 [] s3 = (([], None), s4)"
    by (simp add: s4_def s3_def s2_def s1_def defs)
  have s4: "map fst (tokObjects s4) = [2]
      \<and> tokCalls s4 = [FindObjectsInitCall, FindObjectsCall, FindObjectsCall,
           FindObjectsFinalCall, GetAttributeValueCall 1, DestroyObjectCall 1,
           GetAttributeValueCall 2]"
    by (simp add: s4_def s3_def s2_def s1_def defs)
  from DeleteAllExcept_panics_after_unlabelled[OF a1 a2 a3 a4, of "[''keep'']"] s4
  show ?thesis by simp
qed

lemma DeleteAllExcept_labelled_run:
  "map_option fst (DeleteAllExcept memP [''keep'']
      (emptyToken\<lparr>tokObjects :=
         [(1, [NewAttribute CKA_LABEL (GoString ''keep'')]),
          (2, [NewAttribute CKA_LABEL (GoString ''old'')])]\<rparr>)) = Some (Return None)
   \<and> map_option (map fst \<circ> tokObjects \<circ> snd) (DeleteAllExcept memP [''keep'']
      (emptyToken\<lparr>tokObjects :=
         [(1, [NewAttribute CKA_LABEL (GoString ''keep'')]),
          (2, [NewAttribute CKA_LABEL (GoString ''old'')])]\<rparr>)) = Some [1]"
  by (simp add: DeleteAllExcept_def prog_defs mem_defs attr_defs0 index_def
        string_of_bytes_of_string)

subsection \<open>C9: a failing SignInit\<close>

text \<open>
  C9 says that an operation returns an error to its caller when a call to the token
  fails, in particular when \<^verbatim>\<open>SignInit\<close> fails inside \<^verbatim>\<open>Sign\<close>. \<^verbatim>\<open>Sign\<close> answers a failing
  \<^verbatim>\<open>SignInit\<close> with \<^verbatim>\<open>log.Fatalf\<close>, which ends the process: for every token on which the
  search finds one private key and \<^verbatim>\<open>SignInit\<close> fails, \<^verbatim>\<open>Sign\<close> does not return.
\<close>

theorem Sign_exits_when_SignInit_fails:
  assumes "findAllMatching p (keyTemplate CKO_PRIVATE_KEY label keyid) s = Some (([obj], None), s1)"
    and "ctx_SignInit (ctx p) (session p) [NewMechanism CKM_ECDSA GoNil] obj s1 = (Some e, s2)"
  shows "Sign p cr label keyid hash s = Some (Fatal ''Signing Initiation failed (%s)'' e, s2)"
  by (simp add: Sign_def Sign_found_def assms)

lemma signFaultToken_search:
  "map_option fst (findAllMatching memP (keyTemplate CKO_PRIVATE_KEY ''clitest'' []) signFaultToken)
     = Some ([2], None)"
  by (simp add: prog_defs mem_defs attr_defs signFaultToken_def pairToken_def pairObjects_def)

theorem Sign_exits_when_SignInit_fails_witness:
  "map_option fst (Sign memP toyCrypto ''clitest'' [] hash1 signFaultToken)
     = Some (Fatal ''Signing Initiation failed (%s)'' (P11Error 112))"
proof -
  define s1 where
    "s1 = snd (the (findAllMatching memP (keyTemplate CKO_PRIVATE_KEY ''clitest'' []) signFaultToken))"
  define s2 where "s2 = snd (mem_SignInit 1 [NewMechanism CKM_ECDSA GoNil] 2 s1)"
  have a1: "findAllMatching memP (keyTemplate CKO_PRIVATE_KEY ''clitest'' []) signFaultToken
              = Some (([2], None), s1)"
    unfolding s1_def by (rule search_result[OF signFaultToken_search])
  have a2: "ctx_SignInit (ctx memP) (session memP) [NewMechanism CKM_ECDSA GoNil] 2 s1
              = (Some (P11Error 112), s2)"
    by (simp add: s2_def s1_def prog_defs mem_defs attr_defs signFaultToken_def pairToken_def
          pairObjects_def)
  from Sign_exits_when_SignInit_fails[OF a1 a2, of toyCrypto hash1] show ?thesis
    by simp
qed

subsection \<open>C10: the EC point of a short attribute value\<close>

text \<open>
  C10 says that \<^verbatim>\<open>ecPoint\<close> is not total: it reads the attribute value at the indices 0,
  2 and \<open>len - 1\<close> without a check of the length, and the read at index 2 is out of range
  for a one-byte or two-byte value that starts with \<^verbatim>\<open>04\<close> and is not the pair
  \<^verbatim>\<open>04 04\<close>. When the token returns one attribute, \<^verbatim>\<open>ecPoint\<close> panics exactly on the empty
  value (the read at index 0) and on those values.
\<close>

theorem ecPoint_not_total:
  assumes "ctx_GetAttributeValue pkcs11lib sh key [NewAttribute CKA_EC_POINT GoNil] s
             = (([a], err), s1)"
  shows "(fst (ecPoint pkcs11lib sh key s) = None)
           = (Value a = [] \<or> Value a = [4] \<or> (\<exists>b. b \<noteq> 4 \<and> Value a = [4, b]))"
proof -
  have "fst (ecPoint pkcs11lib sh key s) = ecPoint_case (Value a)"
    by (simp add: ecPoint_def assms split: option.splits)
  moreover have "(ecPoint_case v = None) = (v = [] \<or> v = [4] \<or> (\<exists>b. b \<noteq> 4 \<and> v = [4, b]))"
    for v
  proof (cases v)
    case Nil
    then show ?thesis by (simp add: ecPoint_case_def index_def)
  next
    case (Cons b0 v1)
    note v = this
    show ?thesis
    proof (cases v1)
      case Nil
      with v show ?thesis by (auto simp: ecPoint_case_def index_def)
    next
      case (Cons b1 v2)
      note v1 = this
      show ?thesis
      proof (cases v2)
        case Nil
        with v v1 show ?thesis by (auto simp: ecPoint_case_def index_def)
      next
        case (Cons b2 v3)
        with v v1 show ?thesis
          by (auto simp: ecPoint_case_def index_def split: option.splits bool.splits if_splits)
      qed
    qed
  qed
  ultimately show ?thesis by simp
qed

text \<open>
  On the token whose public key has the EC point \<^verbatim>\<open>04\<close>: \<^verbatim>\<open>ecPoint\<close> panics, and with it
  \<^verbatim>\<open>GetPublicKey\<close> and \<^verbatim>\<open>Verify\<close>.
\<close>

theorem ecPoint_not_total_witness:
  "fst (ecPoint memCtx 1 1 shortPointToken) = None
   \<and> map_option fst (GetPublicKey memP toyCrypto ''clitest'' [] shortPointToken) = Some Panic
   \<and> map_option fst (Verify memP toyCrypto ''clitest'' [] hash1 (rawFull @ [0]) shortPointToken)
     = Some Panic"
proof -
  define s1 where
    "s1 = snd (mem_GetAttributeValue 1 1 [NewAttribute CKA_EC_POINT GoNil] shortPointToken)"
  have a: "ctx_GetAttributeValue memCtx 1 1 [NewAttribute CKA_EC_POINT GoNil] shortPointToken
             = (([\<lparr>Type = CKA_EC_POINT, Value = [4]\<rparr>], None), s1)"
    by (simp add: s1_def mem_defs attr_defs shortPointToken_def)
  have "fst (ecPoint memCtx 1 1 shortPointToken) = None"
    using ecPoint_not_total[OF a] by simp
  moreover have "map_option fst (GetPublicKey memP toyCrypto ''clitest'' [] shortPointToken)
      = Some Panic"
    by (simp add: prog_defs mem_defs attr_defs shortPointToken_def ecPoint_case_def index_def)
  moreover have
    "map_option fst (Verify memP toyCrypto ''clitest'' [] hash1 (rawFull @ [0]) shortPointToken)
      = Some Panic"
    by (simp add: prog_defs mem_defs attr_defs shortPointToken_def ecPoint_case_def index_def)
  ultimately show ?thesis by blast
qed


end
